theory Spec2Isabelle
  imports Main "HOL-Library.Sublist" "HOL-Library.AList"
begin

section \<open>Python strings\<close>

text \<open>
  A Python \<open>str\<close> is modelled as a \<open>string\<close>; a \<open>char\<close> stands for the code point
  with the same number (0 to 255). The case conversions below are the ASCII ones:
  on the letters A to Z and a to z they are what \<open>str.lower\<close>, \<open>str.upper\<close>,
  \<open>str.capitalize\<close>, \<open>str.title\<close> and \<open>str.isupper\<close> compute, every other
  character is taken as uncased. A value that may be \<open>None\<close> is a \<open>string option\<close>.
\<close>

definition truthy :: "string option \<Rightarrow> bool" where
  "truthy v = (case v of None \<Rightarrow> False | Some s \<Rightarrow> s \<noteq> [])"

definition fstr :: "string option \<Rightarrow> string" where
  \<comment> \<open>how an f-string prints a value that may be \<open>None\<close>\<close>
  "fstr v = (case v of None \<Rightarrow> ''None'' | Some s \<Rightarrow> s)"

definition isspace :: "char \<Rightarrow> bool" where
  "isspace c = ((of_char c :: nat) \<in> {9, 10, 11, 12, 13, 28, 29, 30, 31, 32, 133, 160})"

definition strip :: "string \<Rightarrow> string" where
  "strip s = rev (dropWhile isspace (rev (dropWhile isspace s)))"

definition replace :: "char \<Rightarrow> string \<Rightarrow> string \<Rightarrow> string" where
  \<comment> \<open>\<open>s.replace(c, r)\<close> for a one-character pattern \<open>c\<close>\<close>
  "replace c r s = concat (map (\<lambda>x. if x = c then r else [x]) s)"

definition startswith :: "string \<Rightarrow> string \<Rightarrow> bool" where
  "startswith s p = prefix p s"

definition endswith :: "string \<Rightarrow> string \<Rightarrow> bool" where
  "endswith s p = suffix p s"

definition contains :: "string \<Rightarrow> string \<Rightarrow> bool" where
  \<comment> \<open>\<open>p in s\<close>\<close>
  "contains s p = sublist p s"

fun split_on :: "char \<Rightarrow> string \<Rightarrow> string list" where
  \<comment> \<open>\<open>s.split(c)\<close> for a one-character separator\<close>
  "split_on c [] = [[]]"
| "split_on c (x # xs) =
     (if x = c then [] # split_on c xs
      else (case split_on c xs of w # ws \<Rightarrow> (x # w) # ws | [] \<Rightarrow> [[x]]))"

function split_ws :: "string \<Rightarrow> string list" where
  \<comment> \<open>\<open>s.split()\<close>: the maximal runs of characters that are not whitespace\<close>
  "split_ws s =
     (case dropWhile isspace s of
        [] \<Rightarrow> []
      | x # xs \<Rightarrow> takeWhile (\<lambda>c. \<not> isspace c) (x # xs)
                 # split_ws (dropWhile (\<lambda>c. \<not> isspace c) xs))"
  by pat_completeness auto
termination
proof (relation "measure length")
  show "wf (measure length)" by simp
next
  fix s :: string and x xs
  assume a: "dropWhile isspace s = x # xs"
  have "length (dropWhile (\<lambda>c. \<not> isspace c) xs) \<le> length xs"
    by (rule length_dropWhile_le)
  moreover have "length (x # xs) \<le> length s"
    using length_dropWhile_le [of isspace s] a by simp
  ultimately show "(dropWhile (\<lambda>c. \<not> isspace c) xs, s) \<in> measure length"
    by simp
qed

definition is_upper_char :: "char \<Rightarrow> bool" where
  "is_upper_char c = (65 \<le> (of_char c :: nat) \<and> (of_char c :: nat) \<le> 90)"

definition is_lower_char :: "char \<Rightarrow> bool" where
  "is_lower_char c = (97 \<le> (of_char c :: nat) \<and> (of_char c :: nat) \<le> 122)"

definition lower_char :: "char \<Rightarrow> char" where
  "lower_char c = (if is_upper_char c then char_of ((of_char c :: nat) + 32) else c)"

definition upper_char :: "char \<Rightarrow> char" where
  "upper_char c = (if is_lower_char c then char_of ((of_char c :: nat) - 32) else c)"

definition lower :: "string \<Rightarrow> string" where
  "lower s = map lower_char s"

definition capitalize :: "string \<Rightarrow> string" where
  "capitalize s = (case s of [] \<Rightarrow> [] | c # cs \<Rightarrow> upper_char c # lower cs)"

fun title_from :: "bool \<Rightarrow> string \<Rightarrow> string" where
  \<comment> \<open>the flag says that the previous character was a letter\<close>
  "title_from prev [] = []"
| "title_from prev (c # cs) =
     (if prev then lower_char c else upper_char c)
       # title_from (is_upper_char c \<or> is_lower_char c) cs"

definition title :: "string \<Rightarrow> string" where
  "title s = title_from False s"

definition isupper :: "string \<Rightarrow> bool" where
  "isupper s = ((\<exists>c \<in> set s. is_upper_char c) \<and> \<not> (\<exists>c \<in> set s. is_lower_char c))"

section \<open>The parsed schema\<close>

text \<open>
  An \<open>xml.etree.ElementTree.Element\<close>: its tag (\<open>{namespace}local\<close>), its attributes,
  its text and its children. \<open>e.find('.//xsd:t', ns)\<close> and \<open>e.findall('.//xsd:t', ns)\<close>
  search the proper descendants of \<open>e\<close> in document order. An element is truthy
  exactly when it has a child.
\<close>

datatype xml =
  Element (tag: string) (attrib: "(string \<times> string) list")
          (text_of: "string option") (children: "xml list")

fun descendants :: "xml \<Rightarrow> xml list" where
  "descendants (Element t a x cs) = concat (map (\<lambda>c. c # descendants c) cs)"

definition xsd :: "string \<Rightarrow> string" where
  "xsd local = ''{http://www.w3.org/2001/XMLSchema}'' @ local"

definition findall :: "xml \<Rightarrow> string \<Rightarrow> xml list" where
  "findall e t = filter (\<lambda>d. tag d = xsd t) (descendants e)"

definition find_xml :: "xml \<Rightarrow> string \<Rightarrow> xml option" where
  "find_xml e t = (case findall e t of [] \<Rightarrow> None | d # _ \<Rightarrow> Some d)"

definition get :: "xml \<Rightarrow> string \<Rightarrow> string option" where
  "get e k = map_of (attrib e) k"

definition get_or :: "xml \<Rightarrow> string \<Rightarrow> string \<Rightarrow> string" where
  \<comment> \<open>\<open>e.get(k, d)\<close>\<close>
  "get_or e k d = (case get e k of None \<Rightarrow> d | Some v \<Rightarrow> v)"

section \<open>Comments in Turtle\<close>

definition escaped_quote :: string where
  \<comment> \<open>a backslash and a double quote\<close>
  \<open>escaped_quote = [CHR 0x5C, CHR ''"'']\<close>

definition format_comment_for_ttl :: "string option \<Rightarrow> string" where
  \<open>format_comment_for_ttl comment =
     (if \<not> truthy comment then ''''
      else
        let c = strip (the comment);
            escaped_comment = replace (CHR ''"'') escaped_quote c
        in if CHR ''\<newline>'' \<in> set c
           then ''"""\<newline>'' @ escaped_comment @ ''\<newline>"""''
           else ''"'' @ escaped_comment @ ''"'')\<close>

fun quotes_escaped :: "bool \<Rightarrow> string \<Rightarrow> bool" where
  \<comment> \<open>reading the text from the left, where a backslash takes the next character
      with it, no double quote stands alone; the flag says that the character before
      the text was such a backslash\<close>
  \<open>quotes_escaped esc [] = True\<close>
| \<open>quotes_escaped esc (c # cs) =
     (if esc then quotes_escaped False cs
      else if c = CHR 0x5C then quotes_escaped True cs
      else c \<noteq> CHR ''"'' \<and> quotes_escaped False cs)\<close>

section \<open>The transformer's state\<close>

text \<open>
  The fields of \<open>MISMOXSDTransformer\<close>. A \<open>dict\<close> is an association list in insertion
  order, written with \<open>AList.update\<close> (a key that is already there keeps its place) and
  read with \<open>map_of\<close>; \<open>transformed_types\<close> is a Python \<open>set\<close>.
\<close>

record type_info =
  is_owl_class :: bool
  ti_comment :: "string option"
  ti_element :: xml

record contained =
  el_name :: string
  el_type :: string
  max_occurs :: string

record state =
  transformed_types :: "string set"
  ttl_statements :: "string list"
  collection_element_pairs :: "(string \<times> string list) list"
  pending_hierarchies :: "(string \<times> string) list"
  complex_type_info :: "(string \<times> type_info) list"
  hierarchy_data :: "(string \<times> contained list) list"
  disable_pattern_007 :: bool

definition init :: "bool \<Rightarrow> state" where
  "init disable =
     \<lparr> transformed_types = {}, ttl_statements = [], collection_element_pairs = [],
       pending_hierarchies = [], complex_type_info = [], hierarchy_data = [],
       disable_pattern_007 = disable \<rparr>"

definition sval :: "string option \<Rightarrow> string" where
  \<comment> \<open>the string of a value that was tested to be truthy\<close>
  "sval v = (case v of None \<Rightarrow> [] | Some s \<Rightarrow> s)"

definition documentation :: "xml \<Rightarrow> string \<Rightarrow> string option" where
  \<comment> \<open>\<open>doc.text if doc is not None else d\<close> for the first \<open>xsd:documentation\<close> below \<open>e\<close>\<close>
  "documentation e d =
     (case find_xml e ''documentation'' of None \<Rightarrow> Some d | Some doc \<Rightarrow> text_of doc)"

definition register_type :: "bool \<Rightarrow> string \<Rightarrow> xml \<Rightarrow> state \<Rightarrow> state" where
  "register_type is_class label t s =
     (if \<not> truthy (get t ''name'') then s
      else
        let type_name = sval (get t ''name'')
        in s\<lparr> complex_type_info :=
               AList.update type_name
                 \<lparr> is_owl_class = is_class,
                   ti_comment = documentation t (label @ type_name),
                   ti_element = t \<rparr>
                 (complex_type_info s) \<rparr>)"

definition analyze_xsd_structure :: "xml \<Rightarrow> state \<Rightarrow> state" where
  "analyze_xsd_structure root s =
     (if children root = [] then s
      else
        let s1 = fold (register_type True ''Complex type: '') (findall root ''complexType'') s
        in fold (register_type False ''Simple type: '') (findall root ''simpleType'') s1)"

definition is_class_type :: "(string \<times> type_info) list \<Rightarrow> string \<Rightarrow> bool" where
  \<comment> \<open>\<open>t in self.complex_type_info and self.complex_type_info[t]['is_owl_class']\<close>\<close>
  "is_class_type info t = (case map_of info t of None \<Rightarrow> False | Some ti \<Rightarrow> is_owl_class ti)"

definition contained_types_of :: "(string \<times> type_info) list \<Rightarrow> xml \<Rightarrow> contained list" where
  "contained_types_of info complex_type =
     (case find_xml complex_type ''sequence'' of
        None \<Rightarrow> []
      | Some sequence \<Rightarrow>
          concat (map (\<lambda>elem.
            if truthy (get elem ''name'') \<and> truthy (get elem ''type'')
               \<and> is_class_type info (sval (get elem ''type''))
            then [\<lparr> el_name = sval (get elem ''name''),
                    el_type = sval (get elem ''type''),
                    max_occurs = get_or elem ''maxOccurs'' ''1'' \<rparr>]
            else []) (findall sequence ''element'')))"

definition hierarchy_step :: "string \<times> type_info \<Rightarrow> state \<Rightarrow> state" where
  \<comment> \<open>the body of the loop over \<open>self.complex_type_info.items()\<close>\<close>
  "hierarchy_step =
     (\<lambda>(type_name, ti) s'.
        if \<not> is_owl_class ti then s'
        else
          let contained_types = contained_types_of (complex_type_info s') (ti_element ti)
          in if contained_types = [] then s'
             else s'\<lparr> hierarchy_data :=
                        AList.update type_name contained_types (hierarchy_data s') \<rparr>)"

definition build_hierarchy_data :: "state \<Rightarrow> state" where
  "build_hierarchy_data s = fold hierarchy_step (complex_type_info s) s"

section \<open>The inheritance resolver\<close>

definition add_parent :: "string \<Rightarrow> string list \<Rightarrow> string list" where
  \<comment> \<open>\<open>if parent_type not in parents: parents.append(parent_type)\<close>\<close>
  "add_parent parent_type parents =
     (if parent_type \<in> set parents then parents else parents @ [parent_type])"

definition get_parent_types :: "state \<Rightarrow> string \<Rightarrow> string list" where
  "get_parent_types s element_name =
     fold (\<lambda>(parent_type, contained_types) parents.
        fold (\<lambda>c parents.
           if el_name c = element_name \<or> el_type c = element_name
           then add_parent parent_type parents else parents)
          contained_types parents)
       (hierarchy_data s) []"

definition determine_collection_parents :: "state \<Rightarrow> string \<Rightarrow> string list" where
  "determine_collection_parents s collection_name =
     fold (\<lambda>(parent_type, contained_types) parents.
        fold (\<lambda>c parents.
           if el_name c = collection_name then add_parent parent_type parents
           else if el_type c \<noteq> [] \<and> el_type c = collection_name
           then add_parent parent_type parents
           else parents)
          contained_types parents)
       (hierarchy_data s) []"

definition is_top_level_collection :: "state \<Rightarrow> string \<Rightarrow> bool" where
  "is_top_level_collection s collection_name =
     list_all (\<lambda>(parent_type, contained_types).
        list_all (\<lambda>c. el_name c \<noteq> collection_name) contained_types)
       (hierarchy_data s)"

definition find_root_container :: "state \<Rightarrow> string option" where
  \<comment> \<open>the sort is stable, also with \<open>reverse=True\<close>\<close>
  "find_root_container s =
     (let potential_roots =
            map (\<lambda>(type_name, contained_types). (type_name, length contained_types))
              (filter (\<lambda>(type_name, contained_types). length contained_types > 5)
                 (hierarchy_data s))
      in case sort_key (\<lambda>x. - int (snd x)) potential_roots of
           [] \<Rightarrow> None
         | root_container # _ \<Rightarrow> Some (fst root_container))"

section \<open>The pattern classifier\<close>

text \<open>
  \<open>find_pattern_type\<close> returns one of eleven fixed strings, \<open>"Pattern 001"\<close> to
  \<open>"Pattern 009"\<close> and \<open>"UNKNOWN PATTERN"\<close>, which \<open>transform_element_new\<close> compares
  with the same literals: they are the constructors of \<open>pattern\<close>.
\<close>

datatype pattern =
  Pattern_001 | Pattern_001_1 | Pattern_002 | Pattern_003 | Pattern_004 | Pattern_005
  | Pattern_006 | Pattern_007 | Pattern_008 | Pattern_009 | UNKNOWN_PATTERN

definition is_extension_type :: "string \<Rightarrow> bool" where
  "is_extension_type type_name =
     list_ex (\<lambda>indicator. contains type_name indicator)
       [''EXTENSION'', ''MISMO_BASE'', ''OTHER_BASE'']"

definition is_extension_pattern :: "xml \<Rightarrow> bool" where
  "is_extension_pattern e =
     (if endswith (get_or e ''name'' '''') ''EXTENSION'' then True
      else if endswith (tag e) ''complexType'' then
        (case find_xml e ''sequence'' of
           None \<Rightarrow> False
         | Some sequence \<Rightarrow>
             let elements = findall sequence ''element''
             in length elements = 2
                \<and> set (map (\<lambda>elem. get_or elem ''name'' '''') elements) = {''MISMO'', ''OTHER''})
      else False)"

definition isPattern003 :: "xml \<Rightarrow> bool" where
  "isPattern003 e = (find_xml e ''any'' \<noteq> None)"

definition isPattern005 :: "xml \<Rightarrow> bool" where
  "isPattern005 e = (endswith (tag e) ''EXTENSION'' \<or> is_extension_pattern e)"

definition isPattern004 :: "xml \<Rightarrow> bool" where
  "isPattern004 e = (find_xml e ''simpleContent'' \<noteq> None)"

definition collection_name_indicators :: "string list" where
  "collection_name_indicators =
     [''MESSAGE'', ''MESSAGES'', ''VERSIONS'', ''SETS'', ''RELATIONSHIPS'', ''SIGNATURES'',
      ''COLLECTIONS'', ''ABOUT_VERSIONS'', ''DEAL_SETS'', ''DOCUMENT_SETS'',
      ''SYSTEM_SIGNATURES'', ''ACCESS_STREETS'', ''ACCESSIBILITY_FEATURES'',
      ''LOAN_PRODUCTS'', ''BORROWERS'', ''PROPERTIES'', ''ADDRESSES'', ''PHONES'',
      ''EMAILS'', ''IDENTIFIERS'', ''DOCUMENTS'', ''LOANS'', ''TRANSACTIONS'',
      ''PAYMENTS'', ''ACCOUNTS'']"

definition collection_member :: "(string \<times> type_info) list \<Rightarrow> xml \<Rightarrow> bool" where
  \<comment> \<open>the body of the loop of Method 1: does this element make the type a collection\<close>
  "collection_member info elem =
     (truthy (get elem ''type'') \<and>
      (case map_of info (sval (get elem ''type'')) of
         None \<Rightarrow> False
       | Some ti \<Rightarrow>
           if children (ti_element ti) \<noteq> [] \<and> isPattern004 (ti_element ti) then False
           else if children (ti_element ti) \<noteq> [] \<and> isPattern005 (ti_element ti) then False
           else is_owl_class ti))"

definition is_collection_type :: "state \<Rightarrow> xml \<Rightarrow> bool" where
  "is_collection_type s e =
     (if (case find_xml e ''sequence'' of
            None \<Rightarrow> False
          | Some sequence \<Rightarrow>
              list_ex (collection_member (complex_type_info s)) (findall sequence ''element''))
      then True
      else get_or e ''name'' ''UNNAMED'' \<in> set collection_name_indicators)"

definition has_only_attributes :: "xml \<Rightarrow> bool" where
  "has_only_attributes e =
     (if (case find_xml e ''sequence'' of
            None \<Rightarrow> False
          | Some sequence \<Rightarrow> findall sequence ''element'' \<noteq> [])
      then False
      else findall e ''attribute'' \<noteq> [])"

definition should_ignore_element :: "xml \<Rightarrow> bool" where
  "should_ignore_element e =
     (if find_xml e ''union'' \<noteq> None then False
      else if endswith (tag e) ''EXTENSION'' then True
      else if find_xml e ''any'' \<noteq> None then True
      else if endswith (tag e) ''complexType''
              \<and> (case find_xml e ''sequence'' of
                    None \<Rightarrow> False
                  | Some sequence \<Rightarrow>
                      list_all (\<lambda>elem. \<not> (get_or elem ''type'' '''' \<noteq> []
                                         \<and> \<not> is_extension_type (get_or elem ''type'' '''')))
                        (findall sequence ''element''))
      then True
      else if endswith (tag e) ''complexType''
              \<and> (case find_xml e ''simpleContent'' of
                    None \<Rightarrow> False
                  | Some simple_content \<Rightarrow>
                      (case find_xml simple_content ''extension'' of
                         None \<Rightarrow> False
                       | Some extension \<Rightarrow>
                           list_ex (\<lambda>attr. truthy (get attr ''name''))
                             (findall extension ''attribute'')))
      then False
      else if list_ex (\<lambda>attr_group.
                  truthy (get attr_group ''ref'')
                  \<and> (contains (sval (get attr_group ''ref'')) ''xlink:''
                     \<or> contains (sval (get attr_group ''ref'')) ''AttributeExtension''))
                (findall e ''attributeGroup'')
      then (find_xml e ''element'' = None \<and> find_xml e ''attribute'' = None
            \<and> find_xml e ''simpleContent'' = None)
      else False)"

definition find_pattern_type :: "state \<Rightarrow> xml \<Rightarrow> pattern" where
  "find_pattern_type s e =
     (if endswith (tag e) ''simpleType'' then
        (if find_xml e ''union'' \<noteq> None then Pattern_001_1
         else if find_xml e ''enumeration'' \<noteq> None then Pattern_002
         else Pattern_001)
      else if endswith (tag e) ''complexType'' then
        (if isPattern003 e then Pattern_003
         else if isPattern005 e then Pattern_005
         else if isPattern004 e then Pattern_004
         else if is_collection_type s e then Pattern_007
         else if has_only_attributes e then Pattern_009
         else Pattern_006)
      else if should_ignore_element e then Pattern_008
      else UNKNOWN_PATTERN)"

section \<open>The statements\<close>

text \<open>
  Each statement is the text that the emitter's f-string builds, with the same line
  breaks and indentation.
\<close>

definition format_type_reference :: "string \<Rightarrow> string" where
  "format_type_reference type_name =
     (if type_name = [] then type_name
      else if CHR '':'' \<in> set type_name then type_name
      else ''mismo:'' @ type_name)"

definition to_camel_case :: "string \<Rightarrow> string" where
  "to_camel_case name =
     (if name = [] then name
      else case split_on (CHR ''_'') name of
             [] \<Rightarrow> []
           | w # ws \<Rightarrow> lower w @ concat (map capitalize ws))"

fun join :: "string \<Rightarrow> string list \<Rightarrow> string" where
  "join sep [] = []"
| "join sep [x] = x"
| "join sep (x # y # ys) = x @ sep @ join sep (y # ys)"

definition datatype_max_length_ttl :: "string \<Rightarrow> string option \<Rightarrow> string" where
  \<open>datatype_max_length_ttl name max_value =
     ''mismo:'' @ name @ '' a rdfs:Datatype ;\<newline>    rdfs:label "'' @ name @ ''" ;\<newline>    rdfs:comment ''
     @ format_comment_for_ttl
         (Some (''String datatype with maximum length of '' @ fstr max_value @ '' characters''))
     @ '' ;\<newline>    rdfs:subClassOf xsd:string .''\<close>

definition datatype_ttl :: "string \<Rightarrow> string \<Rightarrow> string" where
  \<open>datatype_ttl name base =
     ''mismo:'' @ name @ '' a rdfs:Datatype ;\<newline>    rdfs:label "'' @ name
     @ ''" ;\<newline>    rdfs:subClassOf '' @ format_type_reference base @ '' .''\<close>

definition union_ttl :: "string \<Rightarrow> string option \<Rightarrow> string list \<Rightarrow> string" where
  \<open>union_ttl name comment formatted_types =
     ''mismo:'' @ name @ '' a rdfs:Datatype ;\<newline>    rdfs:label "'' @ name
     @ ''" ;\<newline>    rdfs:comment '' @ format_comment_for_ttl comment
     @ '' ;\<newline>    rdfs:subClassOf '' @ join '', '' formatted_types @ '' .''\<close>

definition enum_base_ttl :: "string \<Rightarrow> string \<Rightarrow> string" where
  \<open>enum_base_ttl name base =
     ''mismo:'' @ name @ '' a rdfs:Datatype ;\<newline>    rdfs:label "'' @ name
     @ ''" ;\<newline>    rdfs:comment ''
     @ format_comment_for_ttl (Some (''Base datatype for '' @ name @ '' enumerations''))
     @ '' ;\<newline>    rdfs:subClassOf '' @ format_type_reference base @ '' .''\<close>

definition enum_ttl :: "string \<Rightarrow> string \<Rightarrow> string option \<Rightarrow> string" where
  \<open>enum_ttl name enum_value comment =
     ''mismo:'' @ enum_value @ '' a rdf:Property ;\<newline>    rdfs:label "'' @ enum_value
     @ ''" ;\<newline>    rdfs:comment '' @ format_comment_for_ttl comment
     @ '' ;\<newline>    rdfs:subPropertyOf mismo:'' @ name @ '' .''\<close>

definition content_property_ttl :: "string \<Rightarrow> string \<Rightarrow> string \<Rightarrow> string" where
  \<open>content_property_ttl content_property_name content_property_label content_property_comment =
     ''mismo:'' @ content_property_name @ '' a owl:DatatypeProperty ;\<newline>    rdfs:label ''
     @ format_comment_for_ttl (Some content_property_label)
     @ '' ;\<newline>    rdfs:comment '' @ format_comment_for_ttl (Some content_property_comment)
     @ '' ;\<newline>    rdfs:range xsd:string .''\<close>

definition element_property_ttl :: "string \<Rightarrow> string \<Rightarrow> string \<Rightarrow> string" where
  \<open>element_property_ttl element_property_name element_property_label element_property_comment =
     ''mismo:'' @ element_property_name @ '' a owl:ObjectProperty ;\<newline>    rdfs:label ''
     @ format_comment_for_ttl (Some element_property_label)
     @ '' ;\<newline>    rdfs:comment '' @ format_comment_for_ttl (Some element_property_comment)
     @ '' ;\<newline>    rdfs:range owl:Thing .''\<close>

definition simple_content_base_ttl :: "string \<Rightarrow> string option \<Rightarrow> string \<Rightarrow> string" where
  \<open>simple_content_base_ttl name comment base =
     ''mismo:'' @ name @ '' a rdfs:Datatype ;\<newline>    rdfs:label "'' @ name
     @ ''" ;\<newline>    rdfs:comment '' @ format_comment_for_ttl comment
     @ '' ;\<newline>    rdfs:subClassOf '' @ format_type_reference base @ '' .''\<close>

definition attr_ttl :: "string \<Rightarrow> string \<Rightarrow> string option \<Rightarrow> string \<Rightarrow> string" where
  \<comment> \<open>the attribute property of Patterns 004 and 009\<close>
  \<open>attr_ttl name prop_name attr_comment attr_type =
     ''mismo:'' @ prop_name @ '' a owl:DatatypeProperty ;\<newline>    rdfs:label "'' @ prop_name
     @ ''" ;\<newline>    rdfs:comment '' @ format_comment_for_ttl attr_comment
     @ '' ;\<newline>    rdfs:domain mismo:'' @ name
     @ '' ;\<newline>    rdfs:range '' @ format_type_reference attr_type @ '' .''\<close>

definition extension_element_ttl :: "string \<Rightarrow> string \<Rightarrow> string option \<Rightarrow> string \<Rightarrow> string" where
  \<comment> \<open>the property of Pattern 005\<close>
  \<open>extension_element_ttl property_name elem_name elem_comment range_type =
     ''mismo:'' @ property_name @ '' a owl:ObjectProperty ;\<newline>    rdfs:label ''
     @ format_comment_for_ttl (Some (''has '' @ lower elem_name))
     @ '' ;\<newline>    rdfs:comment '' @ format_comment_for_ttl elem_comment
     @ '' ;\<newline>    rdfs:range '' @ range_type @ '' .''\<close>

definition class_ttl :: "string \<Rightarrow> string option \<Rightarrow> string" where
  \<comment> \<open>the class of Patterns 006 and 009 when it has parents\<close>
  \<open>class_ttl name comment =
     ''mismo:'' @ name @ '' a owl:Class ;\<newline>            rdfs:label "'' @ name
     @ ''" ;\<newline>            rdfs:comment '' @ format_comment_for_ttl comment @ '' .''\<close>

definition class_thing_ttl :: "string \<Rightarrow> string option \<Rightarrow> string" where
  \<comment> \<open>the class of Patterns 006 and 009 when it has no parent\<close>
  \<open>class_thing_ttl name comment =
     ''mismo:'' @ name @ '' a owl:Class ;\<newline>            rdfs:label "'' @ name
     @ ''" ;\<newline>            rdfs:comment '' @ format_comment_for_ttl comment
     @ '' ;\<newline>            rdfs:subClassOf owl:Thing .''\<close>

definition parent_ttl :: "string \<Rightarrow> string \<Rightarrow> string" where
  \<open>parent_ttl name parent_type =
     ''mismo:'' @ name @ '' rdfs:subClassOf mismo:'' @ parent_type @ '' .''\<close>

definition has_extension_ttl :: "string \<Rightarrow> string \<Rightarrow> string \<Rightarrow> string \<Rightarrow> string" where
  \<comment> \<open>the \<open>hasExtension\<close> property of Patterns 006 and 007; they differ in the indentation\<close>
  \<open>has_extension_ttl indent name elem_name elem_type =
     ''mismo:hasExtension a owl:ObjectProperty ;\<newline>'' @ indent @ ''rdfs:label ''
     @ format_comment_for_ttl (Some ''has extension'')
     @ '' ;\<newline>'' @ indent @ ''rdfs:comment ''
     @ format_comment_for_ttl
         (Some (''Property representing the '' @ elem_name @ '' element of type '' @ elem_type))
     @ '' ;\<newline>'' @ indent @ ''rdfs:domain mismo:'' @ name
     @ '' ;\<newline>'' @ indent @ ''rdfs:range owl:Thing .''\<close>

definition lower_first :: "string \<Rightarrow> string" where
  \<comment> \<open>\<open>n[0].lower() + n[1:] if n else n\<close>\<close>
  "lower_first n = (case n of [] \<Rightarrow> [] | c # cs \<Rightarrow> lower_char c # cs)"

definition member_ttl :: "string \<Rightarrow> string \<Rightarrow> string option \<Rightarrow> string \<Rightarrow> string" where
  \<comment> \<open>the property of an element or of an attribute in Pattern 006\<close>
  \<open>member_ttl name member_name member_comment member_type =
     ''mismo:'' @ lower_first member_name @ '' a owl:DatatypeProperty ;\<newline>    rdfs:label ''
     @ format_comment_for_ttl (Some (replace (CHR ''_'') '' '' (lower member_name)))
     @ '' ;\<newline>    rdfs:comment '' @ format_comment_for_ttl member_comment
     @ '' ;\<newline>    rdfs:domain mismo:'' @ name
     @ '' ;\<newline>    rdfs:range '' @ format_type_reference member_type @ '' .''\<close>

definition collection_class_ttl :: "string \<Rightarrow> string option \<Rightarrow> string" where
  \<open>collection_class_ttl name comment =
     ''mismo:'' @ name @ '' a owl:Class ;\<newline>    rdfs:label "'' @ name
     @ ''" ;\<newline>    rdfs:comment ''
     @ format_comment_for_ttl
         (Some (''A collection containing multiple instances. '' @ fstr comment))
     @ '' .''\<close>

definition collection_class_thing_ttl :: "string \<Rightarrow> string option \<Rightarrow> string" where
  \<open>collection_class_thing_ttl name comment =
     ''mismo:'' @ name @ '' a owl:Class ;\<newline>    rdfs:label "'' @ name
     @ ''" ;\<newline>    rdfs:comment ''
     @ format_comment_for_ttl
         (Some (''A collection containing multiple instances. '' @ fstr comment))
     @ '' ;\<newline>    rdfs:subClassOf owl:Thing .''\<close>

definition contained_class_ttl :: "string \<Rightarrow> string \<Rightarrow> string" where
  \<open>contained_class_ttl name elem_name =
     ''mismo:'' @ elem_name @ '' a owl:Class ;\<newline>        rdfs:label "'' @ elem_name
     @ ''" ;\<newline>        rdfs:comment ''
     @ format_comment_for_ttl
         (Some (''Individual '' @ elem_name @ '' element contained in '' @ name @ '' collection''))
     @ '' ;\<newline>        rdfs:subClassOf mismo:'' @ name @ '' .''\<close>

definition contains_property_ttl :: "string \<Rightarrow> string \<Rightarrow> string" where
  \<open>contains_property_ttl name elem_name =
     ''mismo:contains'' @ elem_name @ '' a owl:ObjectProperty ;\<newline>        rdfs:label "contains ''
     @ elem_name @ ''" ;\<newline>        rdfs:comment ''
     @ format_comment_for_ttl
         (Some (''Relates '' @ name @ '' to individual '' @ elem_name @ '' instances''))
     @ '' ;\<newline>        owl:domain mismo:'' @ name
     @ '' ;\<newline>        owl:range mismo:'' @ elem_name
     @ '' ;\<newline>        rdfs:subPropertyOf rdf:member .''\<close>

definition datatype_property_ttl :: "string \<Rightarrow> string \<Rightarrow> string \<Rightarrow> string" where
  \<open>datatype_property_ttl name elem_name elem_type =
     ''mismo:'' @ elem_name @ '' a owl:DatatypeProperty ;\<newline>        rdfs:label "'' @ elem_name
     @ ''" ;\<newline>        rdfs:comment ''
     @ format_comment_for_ttl (Some (''Property representing the '' @ elem_name @ '' element''))
     @ '' ;\<newline>        rdfs:domain mismo:'' @ name
     @ '' ;\<newline>        rdfs:range ''
     @ (if elem_type \<noteq> [] then format_type_reference elem_type else ''xsd:string'') @ '' .''\<close>

definition ensure_element_ttl :: "string \<Rightarrow> string \<Rightarrow> string" where
  \<open>ensure_element_ttl collection_name element_name =
     ''# Ensure hierarchy consistency: '' @ element_name @ '' is subclass of '' @ collection_name
     @ ''\<newline>mismo:'' @ element_name @ '' rdfs:subClassOf mismo:'' @ collection_name @ '' .''\<close>

definition ensure_parent_ttl :: "string \<Rightarrow> string \<Rightarrow> string" where
  \<open>ensure_parent_ttl collection_name parent_type =
     ''# Ensure collection hierarchy: '' @ collection_name @ '' is subclass of '' @ parent_type
     @ ''\<newline>mismo:'' @ collection_name @ '' rdfs:subClassOf mismo:'' @ parent_type @ '' .''\<close>

definition ensure_thing_ttl :: "string \<Rightarrow> string" where
  \<open>ensure_thing_ttl collection_name =
     ''# Ensure collection hierarchy: '' @ collection_name @ '' is subclass of owl:Thing''
     @ ''\<newline>mismo:'' @ collection_name @ '' rdfs:subClassOf owl:Thing .''\<close>

section \<open>The pattern emitters\<close>

definition transform_pattern_001 :: "xml \<Rightarrow> string list" where
  "transform_pattern_001 e =
     (if \<not> truthy (get e ''name'') then []
      else
        let name = sval (get e ''name'')
        in case find_xml e ''restriction'' of
             None \<Rightarrow> []
           | Some restriction \<Rightarrow>
               if \<not> truthy (get restriction ''base'') then []
               else
                 let base = sval (get restriction ''base'')
                 in if base = ''xsd:string'' then
                      (case find_xml restriction ''maxLength'' of
                         Some max_length \<Rightarrow>
                           [datatype_max_length_ttl name (get max_length ''value'')]
                       | None \<Rightarrow> [datatype_ttl name base])
                    else [datatype_ttl name base])"

definition transform_pattern_001_1 :: "xml \<Rightarrow> string list" where
  "transform_pattern_001_1 e =
     (if \<not> truthy (get e ''name'') then []
      else
        let name = sval (get e ''name'');
            comment = documentation e (''Union datatype: '' @ name)
        in case find_xml e ''union'' of
             None \<Rightarrow> []
           | Some union_element \<Rightarrow>
               if \<not> truthy (get union_element ''memberTypes'') then []
               else
                 let type_list = map strip (split_ws (sval (get union_element ''memberTypes'')));
                     formatted_types =
                       map (\<lambda>type_name. if startswith type_name ''xsd:'' then type_name
                                         else ''mismo:'' @ type_name) type_list
                 in [union_ttl name comment formatted_types])"

definition transform_pattern_002 :: "xml \<Rightarrow> string list" where
  "transform_pattern_002 e =
     (if \<not> truthy (get e ''name'') then []
      else
        let name = sval (get e ''name'')
        in case find_xml e ''restriction'' of
             None \<Rightarrow> []
           | Some restriction \<Rightarrow>
               if \<not> truthy (get restriction ''base'') then []
               else
                 enum_base_ttl name (sval (get restriction ''base''))
                 # concat (map (\<lambda>enum_element.
                     if truthy (get enum_element ''value'')
                     then
                       let enum_value = sval (get enum_element ''value'')
                       in [enum_ttl name enum_value
                             (documentation enum_element (''Enumeration value: '' @ enum_value))]
                     else [])
                     (findall restriction ''enumeration'')))"

definition transform_pattern_003 :: "xml \<Rightarrow> string list" where
  "transform_pattern_003 e =
     (case find_xml e ''any'' of
        None \<Rightarrow> []
      | Some any_element \<Rightarrow>
          if get_or any_element ''namespace'' ''##targetNamespace'' = ''##other''
          then
            [content_property_ttl ''hasOtherNamespaceElementContent''
               ''has other namespace element content''
               ''Property that holds the string content of any element from other namespaces'',
             element_property_ttl ''hasOtherNamespaceElement''
               ''has other namespace element''
               (''Property representing complex elements that allows any elements ''
                @ ''from other namespaces (namespace='' @ [CHR 0x27] @ ''##other''
                @ [CHR 0x27] @ '')'')]
          else
            [content_property_ttl ''hasAnyElementContent''
               ''has any element content''
               ''Property that holds the string content of any element from the target namespace'',
             element_property_ttl ''hasAnyElement''
               ''has any element''
               (''Property representing complex elements that allows any elements ''
                @ ''from the target namespace'')])"

definition transform_pattern_004 :: "xml \<Rightarrow> string list" where
  "transform_pattern_004 e =
     (if \<not> truthy (get e ''name'') then []
      else
        let name = sval (get e ''name'');
            comment = documentation e (''Complex type: '' @ name)
        in case find_xml e ''simpleContent'' of
             None \<Rightarrow> []
           | Some simple_content \<Rightarrow>
               (case find_xml simple_content ''extension'' of
                  None \<Rightarrow> []
                | Some extension \<Rightarrow>
                    if \<not> truthy (get extension ''base'') then []
                    else
                      simple_content_base_ttl name comment (sval (get extension ''base''))
                      # concat (map (\<lambda>attr.
                          if truthy (get attr ''name'') \<and> truthy (get attr ''type'')
                          then
                            let attr_name = sval (get attr ''name'')
                            in [attr_ttl name (to_camel_case attr_name)
                                  (documentation attr (''Attribute: '' @ attr_name))
                                  (sval (get attr ''type''))]
                          else [])
                          (findall extension ''attribute''))))"

definition transform_pattern_005 :: "xml \<Rightarrow> string list" where
  "transform_pattern_005 e =
     (case find_xml e ''sequence'' of
        None \<Rightarrow> []
      | Some sequence \<Rightarrow>
          concat (map (\<lambda>elem.
            if truthy (get elem ''name'') \<and> truthy (get elem ''type'')
            then
              let elem_name = sval (get elem ''name'');
                  elem_type = sval (get elem ''type'');
                  elem_comment =
                    documentation elem
                      (''Property representing the '' @ elem_name @ '' element of type ''
                       @ elem_type);
                  property_name =
                    (if isupper elem_name then ''has'' @ title elem_name
                     else ''has'' @ elem_name);
                  range_type =
                    (if endswith elem_type ''_BASE'' then ''owl:Thing''
                     else ''mismo:'' @ elem_type)
              in [extension_element_ttl property_name elem_name elem_comment range_type]
            else [])
            (findall sequence ''element'')))"

definition class_statements :: "state \<Rightarrow> string \<Rightarrow> string option \<Rightarrow> string list" where
  \<comment> \<open>the class of Patterns 006 and 009 with its superclasses\<close>
  "class_statements s name comment =
     (let parent_types = get_parent_types s name
      in if parent_types \<noteq> []
         then class_ttl name comment # map (parent_ttl name) parent_types
         else [class_thing_ttl name comment])"

definition transform_pattern_006 :: "state \<Rightarrow> xml \<Rightarrow> string list" where
  "transform_pattern_006 s e =
     (if \<not> truthy (get e ''name'') then []
      else
        let name = sval (get e ''name'');
            comment = documentation e (''Complex type: '' @ name)
        in class_statements s name comment
           @ (case find_xml e ''sequence'' of
                None \<Rightarrow> []
              | Some sequence \<Rightarrow>
                  concat (map (\<lambda>elem.
                    if truthy (get elem ''name'') \<and> truthy (get elem ''type'')
                    then
                      let elem_name = sval (get elem ''name'');
                          elem_type = sval (get elem ''type'')
                      in if elem_name = ''EXTENSION'' \<and> endswith elem_type ''_EXTENSION''
                         then [has_extension_ttl ''    '' name elem_name elem_type]
                         else [member_ttl name elem_name
                                 (documentation elem (''Element: '' @ elem_name)) elem_type]
                    else [])
                    (findall sequence ''element'')))
           @ concat (map (\<lambda>attr.
               if truthy (get attr ''name'') \<and> truthy (get attr ''type'')
               then
                 let attr_name = sval (get attr ''name'')
                 in [member_ttl name attr_name
                       (documentation attr (''Attribute: '' @ attr_name))
                       (sval (get attr ''type''))]
               else [])
               (findall e ''attribute'')))"

definition track_collection_element_relationship :: "string \<Rightarrow> string \<Rightarrow> state \<Rightarrow> state" where
  "track_collection_element_relationship collection_name element_name s =
     s\<lparr> collection_element_pairs :=
          AList.update collection_name
            ((case map_of (collection_element_pairs s) collection_name of
                None \<Rightarrow> [] | Some elements \<Rightarrow> elements) @ [element_name])
            (collection_element_pairs s),
        pending_hierarchies := pending_hierarchies s @ [(collection_name, element_name)] \<rparr>"

definition contained_step :: "string \<Rightarrow> contained \<Rightarrow> string list \<times> state \<Rightarrow> string list \<times> state" where
  \<comment> \<open>the body of the loop over the contained types of a collection\<close>
  "contained_step name c acc =
     (let statements = fst acc; s = snd acc;
          elem_name = el_name c; elem_type = el_type c
      in if elem_name = ''EXTENSION'' \<and> endswith elem_type ''_EXTENSION''
         then (statements @ [has_extension_ttl ''        '' name elem_name elem_type], s)
         else if elem_type \<noteq> [] \<and> is_class_type (complex_type_info s) elem_type
         then (statements @ [contained_class_ttl name elem_name,
                             contains_property_ttl name elem_name],
               track_collection_element_relationship name elem_name s)
         else (statements @ [datatype_property_ttl name elem_name elem_type], s))"

definition collection_class_statements :: "state \<Rightarrow> string \<Rightarrow> string option \<Rightarrow> string list" where
  "collection_class_statements s name comment =
     (let parent_types = determine_collection_parents s name
      in if parent_types \<noteq> []
         then collection_class_ttl name comment # map (parent_ttl name) parent_types
         else [collection_class_thing_ttl name comment])"

definition transform_pattern_007_new :: "state \<Rightarrow> xml \<Rightarrow> string list \<times> state" where
  "transform_pattern_007_new s e =
     (if \<not> truthy (get e ''name'') then ([], s)
      else
        let name = sval (get e ''name'');
            comment = documentation e (''Collection type: '' @ name)
        in case map_of (hierarchy_data s) name of
             None \<Rightarrow> ([], s)
           | Some contained_types \<Rightarrow>
               fold (contained_step name) contained_types
                 (collection_class_statements s name comment, s))"

definition transform_pattern_008 :: "xml \<Rightarrow> string list" where
  "transform_pattern_008 e = []"

definition transform_pattern_009 :: "state \<Rightarrow> xml \<Rightarrow> string list" where
  "transform_pattern_009 s e =
     (if \<not> truthy (get e ''name'') then []
      else
        let name = sval (get e ''name'');
            comment = documentation e (''Complex type: '' @ name)
        in class_statements s name comment
           @ concat (map (\<lambda>attr.
               if truthy (get attr ''name'') \<and> truthy (get attr ''type'')
               then
                 let attr_name = sval (get attr ''name'')
                 in [attr_ttl name attr_name
                       (documentation attr (''Attribute: '' @ attr_name))
                       (sval (get attr ''type''))]
               else [])
               (findall e ''attribute'')))"

definition transform_element_new :: "state \<Rightarrow> xml \<Rightarrow> string list \<times> state" where
  "transform_element_new s e =
     (case find_pattern_type s e of
        Pattern_001 \<Rightarrow> (transform_pattern_001 e, s)
      | Pattern_001_1 \<Rightarrow> (transform_pattern_001_1 e, s)
      | Pattern_002 \<Rightarrow> (transform_pattern_002 e, s)
      | Pattern_003 \<Rightarrow> (transform_pattern_003 e, s)
      | Pattern_004 \<Rightarrow> (transform_pattern_004 e, s)
      | Pattern_005 \<Rightarrow> (transform_pattern_005 e, s)
      | Pattern_006 \<Rightarrow> (transform_pattern_006 s e, s)
      | Pattern_007 \<Rightarrow>
          if disable_pattern_007 s then ([], s) else transform_pattern_007_new s e
      | Pattern_008 \<Rightarrow> (transform_pattern_008 e, s)
      | Pattern_009 \<Rightarrow> (transform_pattern_009 s e, s)
      | UNKNOWN_PATTERN \<Rightarrow> ([], s))"

section \<open>The run over the types and the consistency pass\<close>

text \<open>
  The part of \<open>transform_xsd\<close> that visits the types: the simple types, then the
  complex types, the complex type named \<open>MESSAGE\<close> first (the last one of that name,
  and only when that element has a child, since \<open>if message_element:\<close> tests the
  element). A name enters \<open>transformed_types\<close> when its statements are not empty.
\<close>

definition transform_one :: "string \<Rightarrow> xml \<Rightarrow> state \<Rightarrow> state" where
  \<comment> \<open>\<open>statements = self.transform_element_new(e)\<close> and the \<open>if statements:\<close> below it\<close>
  "transform_one name e s =
     (let r = transform_element_new s e; statements = fst r; s1 = snd r
      in if statements \<noteq> []
         then s1\<lparr> ttl_statements := ttl_statements s1 @ statements @ [''''],
                  transformed_types := insert name (transformed_types s1) \<rparr>
         else s1)"

definition transformable_elements :: "xml \<Rightarrow> xml list" where
  "transformable_elements root =
     filter (\<lambda>t. truthy (get t ''name'') \<and> \<not> startswith (sval (get t ''name'')) ''xsd:'')
       (findall root ''simpleType'')
     @ filter (\<lambda>t. get t ''name'' \<noteq> Some ''MESSAGE'') (findall root ''complexType'')"

definition message_element :: "xml \<Rightarrow> xml option" where
  "message_element root =
     (case filter (\<lambda>t. get t ''name'' = Some ''MESSAGE'') (findall root ''complexType'') of
        [] \<Rightarrow> None
      | m # ms \<Rightarrow> Some (last (m # ms)))"

definition transform_message :: "xml \<Rightarrow> state \<Rightarrow> state" where
  "transform_message root s =
     (case message_element root of
        None \<Rightarrow> s
      | Some m \<Rightarrow> if children m = [] then s else transform_one ''MESSAGE'' m s)"

definition transform_step :: "xml \<Rightarrow> state \<Rightarrow> state" where
  "transform_step e s =
     (if truthy (get e ''name'') \<and> sval (get e ''name'') \<notin> transformed_types s
      then transform_one (sval (get e ''name'')) e s
      else s)"

definition transform_types :: "xml \<Rightarrow> state \<Rightarrow> state" where
  "transform_types root s =
     fold transform_step (transformable_elements root) (transform_message root s)"

definition ensure_hierarchy_consistency :: "state \<Rightarrow> string list" where
  "ensure_hierarchy_consistency s =
     concat (map (\<lambda>(collection_name, element_name).
        ensure_element_ttl collection_name element_name
        # (let parent_types = determine_collection_parents s collection_name
           in if parent_types \<noteq> []
              then map (ensure_parent_ttl collection_name) parent_types
              else [ensure_thing_ttl collection_name]))
       (pending_hierarchies s))"

definition consistency_pass :: "state \<Rightarrow> state" where
  \<comment> \<open>the last block of \<open>transform_xsd\<close>\<close>
  "consistency_pass s =
     (let consistency_statements = ensure_hierarchy_consistency s
      in if consistency_statements \<noteq> []
         then s\<lparr> ttl_statements :=
                   ttl_statements s @ ['''', ''# Hierarchy Consistency'', '''']
                   @ consistency_statements @ [''''] \<rparr>
         else s)"

section \<open>Notions used in the theorems\<close>

definition same_schema :: "state \<Rightarrow> state \<Rightarrow> bool" where
  \<comment> \<open>the two states have the same registry, hierarchy data and switch\<close>
  "same_schema s s' =
     (complex_type_info s' = complex_type_info s \<and> hierarchy_data s' = hierarchy_data s
      \<and> disable_pattern_007 s' = disable_pattern_007 s)"

definition same_output :: "state \<Rightarrow> state \<Rightarrow> bool" where
  \<comment> \<open>the two states have the same recorded names and the same statements\<close>
  "same_output s s' =
     (transformed_types s' = transformed_types s \<and> ttl_statements s' = ttl_statements s)"

definition other_namespace_properties :: "string list" where
  \<comment> \<open>the two statements for a wildcard of namespace \<open>##other\<close>, written out\<close>
  \<open>other_namespace_properties =
     [''mismo:hasOtherNamespaceElementContent a owl:DatatypeProperty ;\<newline>    rdfs:label "has other namespace element content" ;\<newline>    rdfs:comment "Property that holds the string content of any element from other namespaces" ;\<newline>    rdfs:range xsd:string .'',
      ''mismo:hasOtherNamespaceElement a owl:ObjectProperty ;\<newline>    rdfs:label "has other namespace element" ;\<newline>    rdfs:comment "Property representing complex elements that allows any elements from other namespaces (namespace=''
      @ [CHR 0x27] @ ''##other'' @ [CHR 0x27] @ '')" ;\<newline>    rdfs:range owl:Thing .'']\<close>

definition target_namespace_properties :: "string list" where
  \<comment> \<open>the two statements for any other wildcard, written out\<close>
  \<open>target_namespace_properties =
     [''mismo:hasAnyElementContent a owl:DatatypeProperty ;\<newline>    rdfs:label "has any element content" ;\<newline>    rdfs:comment "Property that holds the string content of any element from the target namespace" ;\<newline>    rdfs:range xsd:string .'',
      ''mismo:hasAnyElement a owl:ObjectProperty ;\<newline>    rdfs:label "has any element" ;\<newline>    rdfs:comment "Property representing complex elements that allows any elements from the target namespace" ;\<newline>    rdfs:range owl:Thing .'']\<close>

definition is_extension_reference :: "contained \<Rightarrow> bool" where
  \<comment> \<open>the first test in the loop of \<open>transform_pattern_007_new\<close>\<close>
  "is_extension_reference c = (el_name c = ''EXTENSION'' \<and> endswith (el_type c) ''_EXTENSION'')"

definition is_class_reference :: "(string \<times> type_info) list \<Rightarrow> contained \<Rightarrow> bool" where
  \<comment> \<open>the reference takes the branch that emits a contained class\<close>
  "is_class_reference info c =
     (\<not> is_extension_reference c \<and> el_type c \<noteq> [] \<and> is_class_type info (el_type c))"

definition contained_statements ::
  "(string \<times> type_info) list \<Rightarrow> string \<Rightarrow> contained \<Rightarrow> string list" where
  \<comment> \<open>the statements that one contained reference adds\<close>
  "contained_statements info name c =
     (if is_extension_reference c
      then [has_extension_ttl ''        '' name (el_name c) (el_type c)]
      else if is_class_reference info c
      then [contained_class_ttl name (el_name c), contains_property_ttl name (el_name c)]
      else [datatype_property_ttl name (el_name c) (el_type c)])"

definition class_references_only :: "state \<Rightarrow> bool" where
  \<comment> \<open>every reference of the hierarchy data has a name and the type of a class\<close>
  "class_references_only s =
     list_all (\<lambda>(type_name, contained_types).
        list_all (\<lambda>c. el_name c \<noteq> [] \<and> el_type c \<noteq> []
                      \<and> is_class_type (complex_type_info s) (el_type c)) contained_types)
       (hierarchy_data s)"

fun emitted :: "state \<Rightarrow> xml list \<Rightarrow> string set \<Rightarrow> xml list" where
  \<comment> \<open>the elements of the visit whose statements are written, given the names recorded so far\<close>
  "emitted s [] T = []"
| "emitted s (e # es) T =
     (if truthy (get e ''name'') \<and> sval (get e ''name'') \<notin> T
         \<and> fst (transform_element_new s e) \<noteq> []
      then e # emitted s es (insert (sval (get e ''name'')) T)
      else emitted s es T)"

definition visit_order :: "xml \<Rightarrow> xml list" where
  \<comment> \<open>the elements in the order in which \<open>transform_xsd\<close> takes them\<close>
  "visit_order root =
     (case message_element root of
        None \<Rightarrow> []
      | Some m \<Rightarrow> if children m = [] then [] else [m])
     @ transformable_elements root"

section \<open>Example schemas\<close>

definition xsd_element :: "string \<Rightarrow> (string \<times> string) list \<Rightarrow> xml list \<Rightarrow> xml" where
  "xsd_element local attributes cs = Element (xsd local) attributes None cs"

definition load :: "xml \<Rightarrow> state" where
  \<comment> \<open>the state after the two analysis steps of \<open>transform_xsd\<close>\<close>
  "load root = build_hierarchy_data (analyze_xsd_structure root (init False))"

definition loan_status_type :: xml where
  "loan_status_type =
     xsd_element ''simpleType'' [(''name'', ''LOAN_STATUS_TYPE'')]
       [xsd_element ''restriction'' [(''base'', ''xsd:string'')]
          [xsd_element ''enumeration'' [(''value'', ''Active'')] [],
           xsd_element ''enumeration'' [(''value'', ''Closed'')] []]]"

definition borrowers :: xml where
  "borrowers =
     xsd_element ''complexType'' [(''name'', ''BORROWERS'')]
       [xsd_element ''sequence'' []
          [xsd_element ''element''
             [(''name'', ''BORROWER''), (''type'', ''BORROWER''), (''maxOccurs'', ''unbounded'')] []]]"

definition borrower :: xml where
  "borrower =
     xsd_element ''complexType'' [(''name'', ''BORROWER'')]
       [xsd_element ''attribute'' [(''name'', ''SequenceNumber''), (''type'', ''xsd:integer'')] []]"

definition borrowers_schema :: xml where
  "borrowers_schema = xsd_element ''schema'' [] [loan_status_type, borrowers, borrower]"

definition mismo_base :: xml where
  "mismo_base =
     xsd_element ''complexType'' [(''name'', ''MISMO_BASE'')]
       [xsd_element ''sequence'' []
          [xsd_element ''any'' [(''namespace'', ''##targetNamespace''),
                               (''processContents'', ''lax'')] []]]"

definition other_base :: xml where
  "other_base =
     xsd_element ''complexType'' [(''name'', ''OTHER_BASE'')]
       [xsd_element ''sequence'' []
          [xsd_element ''any'' [(''namespace'', ''##other''), (''processContents'', ''lax'')] []]]"

definition status_type :: xml where
  "status_type =
     xsd_element ''simpleType'' [(''name'', ''STATUS_TYPE'')]
       [xsd_element ''restriction'' [(''base'', ''xsd:string'')]
          [xsd_element ''enumeration'' [(''value'', ''Active'')] [],
           xsd_element ''enumeration'' [(''value'', '''')] []]]"

definition deal_sets :: xml where
  "deal_sets =
     xsd_element ''complexType'' [(''name'', ''DEAL_SETS'')]
       [xsd_element ''sequence'' []
          [xsd_element ''element''
             [(''name'', ''DEAL_SET''), (''type'', ''DEAL_SET''), (''maxOccurs'', ''unbounded'')] [],
           xsd_element ''element'' [(''name'', ''PARTIES''), (''type'', ''PARTIES'')] []]]"

definition deal_set :: xml where
  "deal_set =
     xsd_element ''complexType'' [(''name'', ''DEAL_SET'')]
       [xsd_element ''attribute'' [(''name'', ''SequenceNumber''), (''type'', ''xsd:integer'')] []]"

definition parties :: xml where
  "parties =
     xsd_element ''complexType'' [(''name'', ''PARTIES'')]
       [xsd_element ''sequence'' []
          [xsd_element ''element''
             [(''name'', ''PARTY''), (''type'', ''PARTY''), (''maxOccurs'', ''unbounded'')] [],
           xsd_element ''element''
             [(''name'', ''EXTENSION''), (''type'', ''PARTIES_EXTENSION''),
              (''maxOccurs'', ''unbounded'')] []]]"

definition party :: xml where
  "party =
     xsd_element ''complexType'' [(''name'', ''PARTY'')]
       [xsd_element ''attribute'' [(''name'', ''SequenceNumber''), (''type'', ''xsd:integer'')] []]"

definition parties_extension :: xml where
  "parties_extension =
     xsd_element ''complexType'' [(''name'', ''PARTIES_EXTENSION'')]
       [xsd_element ''sequence'' []
          [xsd_element ''element'' [(''name'', ''OTHER''), (''type'', ''xsd:string'')] []]]"

definition deal_schema :: xml where
  "deal_schema =
     xsd_element ''schema'' [] [deal_sets, deal_set, parties, party, parties_extension]"



definition item :: xml where
  "item =
     xsd_element ''complexType'' [(''name'', ''ITEM'')]
       [xsd_element ''attribute'' [(''name'', ''SequenceNumber''), (''type'', ''xsd:integer'')] []]"

definition gadget :: xml where
  "gadget =
     xsd_element ''complexType'' [(''name'', ''GADGET'')]
       [xsd_element ''attribute'' [(''name'', ''Label''), (''type'', ''xsd:string'')] []]"

definition root_type :: xml where
  "root_type =
     xsd_element ''complexType'' [(''name'', ''ROOT'')]
       [xsd_element ''sequence'' []
          [xsd_element ''element'' [(''name'', ''A''), (''type'', ''ITEM'')] [],
           xsd_element ''element'' [(''name'', ''B''), (''type'', ''ITEM'')] [],
           xsd_element ''element'' [(''name'', ''C''), (''type'', ''ITEM'')] [],
           xsd_element ''element'' [(''name'', ''D''), (''type'', ''ITEM'')] [],
           xsd_element ''element'' [(''name'', ''E''), (''type'', ''ITEM'')] [],
           xsd_element ''element'' [(''name'', ''F''), (''type'', ''ITEM'')] []]]"

definition widgets :: xml where
  "widgets =
     xsd_element ''complexType'' [(''name'', ''WIDGETS'')]
       [xsd_element ''sequence'' []
          [xsd_element ''element''
             [(''name'', ''WIDGET''), (''type'', ''WIDGET''), (''maxOccurs'', ''unbounded'')] []]]"

definition widget :: xml where
  "widget =
     xsd_element ''complexType'' [(''name'', ''WIDGET'')]
       [xsd_element ''attribute'' [(''name'', ''Label''), (''type'', ''xsd:string'')] []]"

definition root_schema :: xml where
  "root_schema = xsd_element ''schema'' [] [root_type, item, gadget, widgets, widget]"

definition amount_decimal :: xml where
  "amount_decimal =
     xsd_element ''simpleType'' [(''name'', ''AMOUNT'')]
       [xsd_element ''restriction'' [(''base'', ''xsd:decimal'')] []]"

definition amount_integer :: xml where
  "amount_integer =
     xsd_element ''simpleType'' [(''name'', ''AMOUNT'')]
       [xsd_element ''restriction'' [(''base'', ''xsd:integer'')] []]"

definition amounts_schema :: xml where
  "amounts_schema = xsd_element ''schema'' [] [amount_decimal, amount_integer]"

definition code_without_base :: xml where
  "code_without_base =
     xsd_element ''simpleType'' [(''name'', ''CODE'')] [xsd_element ''restriction'' [] []]"

definition code_string :: xml where
  "code_string =
     xsd_element ''simpleType'' [(''name'', ''CODE'')]
       [xsd_element ''restriction'' [(''base'', ''xsd:string'')] []]"

definition codes_schema :: xml where
  "codes_schema = xsd_element ''schema'' [] [code_without_base, code_string]"

section \<open>Comments are quoted and escaped\<close>

lemma quotes_escaped_replace:
  \<open>CHR 0x5C \<notin> set s \<Longrightarrow> quotes_escaped False (replace (CHR ''"'') escaped_quote s)\<close>
  by (induction s) (auto simp add: replace_def escaped_quote_def)

lemma strip_subset: "set (strip s) \<subseteq> set s"
proof -
  have "set (dropWhile isspace (rev (dropWhile isspace s))) \<subseteq> set (rev (dropWhile isspace s))"
    by (auto dest: set_dropWhileD)
  also have "\<dots> \<subseteq> set s" by (auto dest: set_dropWhileD)
  finally show ?thesis by (simp add: strip_def)
qed

text \<open>
  C8 (as the code has it). A comment that is not empty is stripped and each of its
  double quotes is replaced by a backslash and a double quote; when the stripped text
  has a newline the result is the block literal, three quotes and a newline on each
  side, and otherwise the text between two double quotes. When the comment has no
  backslash, every double quote of the text between the delimiters is escaped. The
  empty comment and \<open>None\<close> give the empty text.
\<close>

theorem format_comment_for_ttl_spec:
  \<open>format_comment_for_ttl None = '''' \<and>
   format_comment_for_ttl (Some '''') = '''' \<and>
   (c \<noteq> '''' \<longrightarrow>
      (CHR 0x5C \<notin> set c \<longrightarrow>
         quotes_escaped False (replace (CHR ''"'') escaped_quote (strip c))) \<and>
      (CHR ''\<newline>'' \<in> set (strip c) \<longrightarrow>
         format_comment_for_ttl (Some c)
           = ''"""\<newline>'' @ replace (CHR ''"'') escaped_quote (strip c) @ ''\<newline>"""'') \<and>
      (CHR ''\<newline>'' \<notin> set (strip c) \<longrightarrow>
         format_comment_for_ttl (Some c)
           = ''"'' @ replace (CHR ''"'') escaped_quote (strip c) @ ''"''))\<close>
proof -
  have "CHR 0x5C \<notin> set c \<longrightarrow>
         quotes_escaped False (replace (CHR 0x22) escaped_quote (strip c))"
    using strip_subset [of c] quotes_escaped_replace [of "strip c"] by blast
  then show ?thesis
    by (simp add: format_comment_for_ttl_def truthy_def Let_def)
qed

theorem format_comment_for_ttl_spec_witness:
  \<open>CHR 0x5C \<notin> set ''say "hi"'' \<and>
   format_comment_for_ttl (Some ''say "hi"'')
     = ''"say '' @ escaped_quote @ ''hi'' @ escaped_quote @ ''"'' \<and>
   format_comment_for_ttl (Some '' a\<newline>"b" '')
     = ''"""\<newline>a\<newline>'' @ escaped_quote @ ''b'' @ escaped_quote @ ''\<newline>"""'' \<and>
   quotes_escaped False (replace (CHR ''"'') escaped_quote (strip ''say "hi"'')) \<and>
   quotes_escaped False (replace (CHR ''"'') escaped_quote (strip '' a\<newline>"b" ''))\<close>
  using format_comment_for_ttl_spec [of \<open>''say "hi"''\<close>]
        format_comment_for_ttl_spec [of \<open>'' a\<newline>"b" ''\<close>]
  by (simp add: strip_def isspace_def replace_def escaped_quote_def)

text \<open>
  C8 (as the claim has it) fails in two places. The empty comment, which has no
  newline, is not rendered as a double-quoted literal. And in the comment made of
  \<open>a\<close>, a backslash, a double quote and \<open>b\<close> the backslash is copied as it is, so
  the rendered text has two backslashes before the double quote, which is then not
  escaped.
\<close>

theorem format_comment_for_ttl_counterexample:
  \<open>CHR ''\<newline>'' \<notin> set (strip '''') \<and>
   format_comment_for_ttl (Some '''') = '''' \<and>
   format_comment_for_ttl (Some [CHR ''a'', CHR 0x5C, CHR ''"'', CHR ''b''])
     = [CHR ''"'', CHR ''a'', CHR 0x5C, CHR 0x5C, CHR ''"'', CHR ''b'', CHR ''"''] \<and>
   \<not> quotes_escaped False
       (replace (CHR ''"'') escaped_quote (strip [CHR ''a'', CHR 0x5C, CHR ''"'', CHR ''b'']))\<close>
  by (simp add: format_comment_for_ttl_def truthy_def strip_def isspace_def replace_def
        escaped_quote_def)

section \<open>The example schemas, loaded\<close>

lemma load_borrowers_schema:
  "load borrowers_schema =
     \<lparr> transformed_types = {}, ttl_statements = [], collection_element_pairs = [],
       pending_hierarchies = [],
       complex_type_info =
         [(''BORROWERS'', \<lparr> is_owl_class = True, ti_comment = Some ''Complex type: BORROWERS'',
                            ti_element = borrowers \<rparr>),
          (''BORROWER'', \<lparr> is_owl_class = True, ti_comment = Some ''Complex type: BORROWER'',
                            ti_element = borrower \<rparr>),
          (''LOAN_STATUS_TYPE'', \<lparr> is_owl_class = False,
                            ti_comment = Some ''Simple type: LOAN_STATUS_TYPE'',
                            ti_element = loan_status_type \<rparr>)],
       hierarchy_data =
         [(''BORROWERS'', [\<lparr> el_name = ''BORROWER'', el_type = ''BORROWER'',
                              max_occurs = ''unbounded'' \<rparr>])],
       disable_pattern_007 = False \<rparr>"
  by code_simp

section \<open>The classifier is an ordered decision procedure\<close>

lemma complexType_not_simpleType:
  assumes "endswith t ''complexType''"
  shows "\<not> endswith t ''simpleType''"
proof
  assume "endswith t ''simpleType''"
  with assms have a: "suffix ''complexType'' t" and b: "suffix ''simpleType'' t"
    by (simp_all add: endswith_def)
  have "suffix ''simpleType'' ''complexType''"
    by (rule suffix_length_suffix [OF b a]) simp
  then show False by (simp add: suffix_to_prefix)
qed

text \<open>
  C2. On a simple type the classifier answers Union (Pattern 001.1) when a union is
  present, else Enumeration (Pattern 002) when an enumeration is present, else
  Restriction (Pattern 001). On a complex type it answers with the first check that
  holds, in the order AnyWildcard (Pattern 003, an \<open>xsd:any\<close> is present), ExtensionOnly
  (Pattern 005), SimpleContentWithAttributes (Pattern 004, a \<open>simpleContent\<close> is
  present), Collection (Pattern 007), AttributesOnly (Pattern 009), and
  ElementsAndAttributes (Pattern 006) when none holds.
\<close>

theorem find_pattern_type_priority:
  "(endswith (tag e) ''simpleType'' \<longrightarrow>
      find_pattern_type s e =
        (if find_xml e ''union'' \<noteq> None then Pattern_001_1
         else if find_xml e ''enumeration'' \<noteq> None then Pattern_002
         else Pattern_001)) \<and>
   (endswith (tag e) ''complexType'' \<longrightarrow>
      find_pattern_type s e =
        (if find_xml e ''any'' \<noteq> None then Pattern_003
         else if isPattern005 e then Pattern_005
         else if find_xml e ''simpleContent'' \<noteq> None then Pattern_004
         else if is_collection_type s e then Pattern_007
         else if has_only_attributes e then Pattern_009
         else Pattern_006))"
  by (simp add: find_pattern_type_def complexType_not_simpleType isPattern003_def
        isPattern004_def)

theorem find_pattern_type_priority_witness:
  "endswith (tag loan_status_type) ''simpleType'' \<and>
   find_pattern_type (load borrowers_schema) loan_status_type = Pattern_002 \<and>
   endswith (tag borrowers) ''complexType'' \<and>
   find_pattern_type (load borrowers_schema) borrowers = Pattern_007"
  using find_pattern_type_priority [of loan_status_type "load borrowers_schema"]
        find_pattern_type_priority [of borrowers "load borrowers_schema"]
  by code_simp

section \<open>What the emitters change\<close>

lemma track_fields [simp]:
  "complex_type_info (track_collection_element_relationship c x s) = complex_type_info s"
  "hierarchy_data (track_collection_element_relationship c x s) = hierarchy_data s"
  "disable_pattern_007 (track_collection_element_relationship c x s) = disable_pattern_007 s"
  "transformed_types (track_collection_element_relationship c x s) = transformed_types s"
  "ttl_statements (track_collection_element_relationship c x s) = ttl_statements s"
  by (simp_all add: track_collection_element_relationship_def)

lemma contained_step_fields:
  "same_schema (snd acc) (snd (contained_step name c acc)) \<and>
   same_output (snd acc) (snd (contained_step name c acc))"
  by (simp add: contained_step_def Let_def same_schema_def same_output_def)

lemma fold_contained_step_fields:
  "same_schema (snd acc) (snd (fold (contained_step name) cs acc)) \<and>
   same_output (snd acc) (snd (fold (contained_step name) cs acc))"
proof (induction cs arbitrary: acc)
  case Nil
  show ?case by (simp add: same_schema_def same_output_def)
next
  case (Cons c cs)
  from Cons.IH [of "contained_step name c acc"] contained_step_fields [of acc name c]
  show ?case by (simp add: same_schema_def same_output_def)
qed

lemma transform_pattern_007_new_fields:
  "same_schema s (snd (transform_pattern_007_new s e)) \<and>
   same_output s (snd (transform_pattern_007_new s e))"
proof (cases "truthy (get e ''name'')")
  case False
  then show ?thesis
    by (simp add: transform_pattern_007_new_def same_schema_def same_output_def)
next
  case True
  show ?thesis
  proof (cases "map_of (hierarchy_data s) (sval (get e ''name''))")
    case None
    with True show ?thesis
      by (simp add: transform_pattern_007_new_def same_schema_def same_output_def)
  next
    case (Some cs)
    with True fold_contained_step_fields
      [of "(collection_class_statements s (sval (get e ''name''))
              (documentation e (''Collection type: '' @ sval (get e ''name''))), s)"
          "sval (get e ''name'')" cs]
    show ?thesis
      by (simp add: transform_pattern_007_new_def Let_def)
  qed
qed

lemma transform_element_new_fields:
  "same_schema s (snd (transform_element_new s e)) \<and>
   same_output s (snd (transform_element_new s e))"
  using transform_pattern_007_new_fields [of s e]
  by (cases "find_pattern_type s e")
     (simp_all add: transform_element_new_def same_schema_def same_output_def)

lemma is_collection_type_cong:
  "complex_type_info s' = complex_type_info s \<Longrightarrow> is_collection_type s' e = is_collection_type s e"
  by (simp add: is_collection_type_def cong: option.case_cong)

lemma find_pattern_type_cong:
  "complex_type_info s' = complex_type_info s \<Longrightarrow> find_pattern_type s' e = find_pattern_type s e"
  using is_collection_type_cong [of s' s e] by (simp add: find_pattern_type_def)

text \<open>
  C9. The pattern of an element is a function of the element and of the registry
  \<open>complex_type_info\<close> alone: two invocations in states with the same registry give
  the same pattern, whatever was emitted in between. The classifier reads the state and
  returns a pattern only; the emitters, the only code that runs between two
  classifications, leave the registry and the hierarchy data as they were.
\<close>

theorem find_pattern_type_deterministic:
  "(complex_type_info s' = complex_type_info s \<longrightarrow>
      find_pattern_type s' e = find_pattern_type s e) \<and>
   complex_type_info (snd (transform_element_new s e')) = complex_type_info s \<and>
   hierarchy_data (snd (transform_element_new s e')) = hierarchy_data s \<and>
   find_pattern_type (snd (transform_element_new s e')) e = find_pattern_type s e"
  using transform_element_new_fields [of s e']
    find_pattern_type_cong [of s' s e]
    find_pattern_type_cong [of "snd (transform_element_new s e')" s e]
  by (simp add: same_schema_def)

theorem find_pattern_type_deterministic_witness:
  "pending_hierarchies (snd (transform_element_new (load borrowers_schema) borrowers))
     \<noteq> pending_hierarchies (load borrowers_schema) \<and>
   complex_type_info (snd (transform_element_new (load borrowers_schema) borrowers))
     = complex_type_info (load borrowers_schema) \<and>
   find_pattern_type (snd (transform_element_new (load borrowers_schema) borrowers)) borrowers
     = Pattern_007 \<and>
   find_pattern_type (load borrowers_schema) borrowers = Pattern_007"
  using find_pattern_type_deterministic
    [of "snd (transform_element_new (load borrowers_schema) borrowers)"
        "load borrowers_schema" borrowers borrowers]
  by code_simp

section \<open>The wildcard and the enumeration emitters\<close>

lemma concat_map_if:
  "concat (map (\<lambda>x. if P x then [f x] else []) xs) = map f (filter P xs)"
  by (induction xs) simp_all

lemma wildcard_other:
  "[content_property_ttl ''hasOtherNamespaceElementContent''
               ''has other namespace element content''
               ''Property that holds the string content of any element from other namespaces'',
             element_property_ttl ''hasOtherNamespaceElement''
               ''has other namespace element''
               (''Property representing complex elements that allows any elements ''
                @ ''from other namespaces (namespace='' @ [CHR 0x27] @ ''##other''
                @ [CHR 0x27] @ '')'')] = other_namespace_properties"
  by code_simp

lemma wildcard_target:
  "[content_property_ttl ''hasAnyElementContent''
               ''has any element content''
               ''Property that holds the string content of any element from the target namespace'',
             element_property_ttl ''hasAnyElement''
               ''has any element''
               (''Property representing complex elements that allows any elements ''
                @ ''from the target namespace'')] = target_namespace_properties"
  by code_simp

lemma wildcard_no_class:
  "list_all (\<lambda>st. \<not> contains st ''owl:Class'') (other_namespace_properties @ target_namespace_properties)"
  by code_simp

lemma wildcard_kinds:
  "length other_namespace_properties = 2 \<and> length target_namespace_properties = 2 \<and>
   contains (other_namespace_properties ! 0) '' a owl:DatatypeProperty ;'' \<and>
   contains (other_namespace_properties ! 1) '' a owl:ObjectProperty ;'' \<and>
   contains (target_namespace_properties ! 0) '' a owl:DatatypeProperty ;'' \<and>
   contains (target_namespace_properties ! 1) '' a owl:ObjectProperty ;'' \<and>
   set other_namespace_properties \<inter> set target_namespace_properties = {}"
  by code_simp

lemma transform_pattern_003_eq:
  "find_xml e ''any'' = Some a \<Longrightarrow>
   transform_pattern_003 e =
     (if get_or a ''namespace'' ''##targetNamespace'' = ''##other''
      then other_namespace_properties else target_namespace_properties)"
  using wildcard_other wildcard_target
  by (simp add: transform_pattern_003_def)

lemma Pattern_003_any:
  "find_pattern_type s e = Pattern_003 \<Longrightarrow> find_xml e ''any'' \<noteq> None"
  by (simp add: find_pattern_type_def isPattern003_def split: if_splits)

text \<open>
  C7. A complex type classified AnyWildcard (Pattern 003) has an \<open>xsd:any\<close>; its
  statements are exactly two, a datatype property and then an object property, and
  none of them declares a class. The pair is \<open>other_namespace_properties\<close> when the
  namespace of the first \<open>xsd:any\<close> is \<open>##other\<close> and \<open>target_namespace_properties\<close>
  otherwise; the state is left as it was.
\<close>

theorem any_wildcard_properties:
  "find_pattern_type s e = Pattern_003 \<longrightarrow>
     find_xml e ''any'' \<noteq> None \<and>
     transform_element_new s e =
       (if get_or (the (find_xml e ''any'')) ''namespace'' ''##targetNamespace'' = ''##other''
        then other_namespace_properties else target_namespace_properties, s) \<and>
     length (fst (transform_element_new s e)) = 2 \<and>
     list_all (\<lambda>st. \<not> contains st ''owl:Class'') (fst (transform_element_new s e)) \<and>
     contains (fst (transform_element_new s e) ! 0) '' a owl:DatatypeProperty ;'' \<and>
     contains (fst (transform_element_new s e) ! 1) '' a owl:ObjectProperty ;''"
proof
  assume p: "find_pattern_type s e = Pattern_003"
  then obtain a where a: "find_xml e ''any'' = Some a"
    using Pattern_003_any [of s e] by auto
  have out: "transform_element_new s e =
          (if get_or a ''namespace'' ''##targetNamespace'' = ''##other''
           then other_namespace_properties else target_namespace_properties, s)"
    using p transform_pattern_003_eq [OF a] by (simp add: transform_element_new_def)
  have "length (fst (transform_element_new s e)) = 2"
    using wildcard_kinds by (simp add: out)
  moreover have "list_all (\<lambda>st. \<not> contains st ''owl:Class'') (fst (transform_element_new s e))"
    using wildcard_no_class by (simp add: out)
  moreover have "contains (fst (transform_element_new s e) ! 0) '' a owl:DatatypeProperty ;''"
    using wildcard_kinds by (simp add: out)
  moreover have "contains (fst (transform_element_new s e) ! 1) '' a owl:ObjectProperty ;''"
    using wildcard_kinds by (simp add: out)
  ultimately show "find_xml e ''any'' \<noteq> None \<and>
     transform_element_new s e =
       (if get_or (the (find_xml e ''any'')) ''namespace'' ''##targetNamespace'' = ''##other''
        then other_namespace_properties else target_namespace_properties, s) \<and>
     length (fst (transform_element_new s e)) = 2 \<and>
     list_all (\<lambda>st. \<not> contains st ''owl:Class'') (fst (transform_element_new s e)) \<and>
     contains (fst (transform_element_new s e) ! 0) '' a owl:DatatypeProperty ;'' \<and>
     contains (fst (transform_element_new s e) ! 1) '' a owl:ObjectProperty ;''"
    using a out by simp
qed

theorem any_wildcard_properties_witness:
  "find_pattern_type (init False) mismo_base = Pattern_003 \<and>
   fst (transform_element_new (init False) mismo_base) = target_namespace_properties \<and>
   find_pattern_type (init False) other_base = Pattern_003 \<and>
   fst (transform_element_new (init False) other_base) = other_namespace_properties"
  using any_wildcard_properties [of "init False" mismo_base]
        any_wildcard_properties [of "init False" other_base]
  by code_simp

lemma enum_ttl_shape:
  \<open>startswith (enum_ttl name v c)
     (''mismo:'' @ v @ '' a rdf:Property ;\<newline>    rdfs:label "'' @ v @ ''" ;'') \<and>
   endswith (enum_ttl name v c) (''rdfs:subPropertyOf mismo:'' @ name @ '' .'')\<close>
  by (simp add: enum_ttl_def startswith_def endswith_def suffix_def)

lemma enum_base_ttl_shape:
  \<open>startswith (enum_base_ttl name base) (''mismo:'' @ name @ '' a rdfs:Datatype ;'') \<and>
   endswith (enum_base_ttl name base) (''rdfs:subClassOf '' @ format_type_reference base @ '' .'')\<close>
  by (simp add: enum_base_ttl_def startswith_def endswith_def suffix_def)

text \<open>
  C6 (as the code has it). For an Enumeration type with a name, whose first restriction
  has a base, the statements are the base datatype, a subclass of the formatted base,
  followed by one property for each enumeration below that restriction whose value is
  not empty, in document order, labelled with the value and a sub-property of the
  base datatype: one plus the number of those enumerations.
\<close>

theorem transform_pattern_002_statements:
  \<open>truthy (get e ''name'') \<and> find_xml e ''restriction'' = Some r \<and> truthy (get r ''base'') \<longrightarrow>
     transform_pattern_002 e =
       enum_base_ttl (sval (get e ''name'')) (sval (get r ''base''))
       # map (\<lambda>en. enum_ttl (sval (get e ''name'')) (sval (get en ''value''))
                    (documentation en (''Enumeration value: '' @ sval (get en ''value''))))
           (filter (\<lambda>en. truthy (get en ''value'')) (findall r ''enumeration'')) \<and>
     length (transform_pattern_002 e) =
       1 + length (filter (\<lambda>en. truthy (get en ''value'')) (findall r ''enumeration'')) \<and>
     endswith (hd (transform_pattern_002 e))
       (''rdfs:subClassOf '' @ format_type_reference (sval (get r ''base'')) @ '' .'') \<and>
     (\<forall>st \<in> set (tl (transform_pattern_002 e)).
        endswith st (''rdfs:subPropertyOf mismo:'' @ sval (get e ''name'') @ '' .'')) \<and>
     (\<forall>en \<in> set (findall r ''enumeration''). truthy (get en ''value'') \<longrightarrow>
        (\<exists>st \<in> set (tl (transform_pattern_002 e)).
           startswith st (''mismo:'' @ sval (get en ''value'')
             @ '' a rdf:Property ;\<newline>    rdfs:label "'' @ sval (get en ''value'') @ ''" ;'')))\<close>
proof
  assume h: \<open>truthy (get e ''name'') \<and> find_xml e ''restriction'' = Some r \<and> truthy (get r ''base'')\<close>
  let ?name = "sval (get e ''name'')"
  let ?f = "\<lambda>en. enum_ttl ?name (sval (get en ''value''))
                    (documentation en (''Enumeration value: '' @ sval (get en ''value'')))"
  let ?ens = "filter (\<lambda>en. truthy (get en ''value'')) (findall r ''enumeration'')"
  have eq: "transform_pattern_002 e = enum_base_ttl ?name (sval (get r ''base'')) # map ?f ?ens"
    using h by (simp add: transform_pattern_002_def Let_def concat_map_if cong: if_cong)
  have len: "length (transform_pattern_002 e) = 1 + length ?ens"
    by (simp add: eq)
  have hd: "endswith (hd (transform_pattern_002 e))
       (''rdfs:subClassOf '' @ format_type_reference (sval (get r ''base'')) @ '' .'')"
    using enum_base_ttl_shape by (simp add: eq)
  have tl: "\<forall>st \<in> set (tl (transform_pattern_002 e)).
        endswith st (''rdfs:subPropertyOf mismo:'' @ ?name @ '' .'')"
    using enum_ttl_shape by (auto simp add: eq)
  have ex: \<open>\<forall>en \<in> set (findall r ''enumeration''). truthy (get en ''value'') \<longrightarrow>
        (\<exists>st \<in> set (tl (transform_pattern_002 e)).
           startswith st (''mismo:'' @ sval (get en ''value'')
             @ '' a rdf:Property ;\<newline>    rdfs:label "'' @ sval (get en ''value'') @ ''" ;''))\<close>
  proof (intro ballI impI)
    fix en assume "en \<in> set (findall r ''enumeration'')" "truthy (get en ''value'')"
    then have "?f en \<in> set (tl (transform_pattern_002 e))"
      by (simp add: eq)
    then show \<open>\<exists>st \<in> set (tl (transform_pattern_002 e)).
           startswith st (''mismo:'' @ sval (get en ''value'')
             @ '' a rdf:Property ;\<newline>    rdfs:label "'' @ sval (get en ''value'') @ ''" ;'')\<close>
      using enum_ttl_shape by blast
  qed
  from eq len hd tl ex show \<open>transform_pattern_002 e =
       enum_base_ttl (sval (get e ''name'')) (sval (get r ''base''))
       # map (\<lambda>en. enum_ttl (sval (get e ''name'')) (sval (get en ''value''))
                    (documentation en (''Enumeration value: '' @ sval (get en ''value''))))
           (filter (\<lambda>en. truthy (get en ''value'')) (findall r ''enumeration'')) \<and>
     length (transform_pattern_002 e) =
       1 + length (filter (\<lambda>en. truthy (get en ''value'')) (findall r ''enumeration'')) \<and>
     endswith (hd (transform_pattern_002 e))
       (''rdfs:subClassOf '' @ format_type_reference (sval (get r ''base'')) @ '' .'') \<and>
     (\<forall>st \<in> set (tl (transform_pattern_002 e)).
        endswith st (''rdfs:subPropertyOf mismo:'' @ sval (get e ''name'') @ '' .'')) \<and>
     (\<forall>en \<in> set (findall r ''enumeration''). truthy (get en ''value'') \<longrightarrow>
        (\<exists>st \<in> set (tl (transform_pattern_002 e)).
           startswith st (''mismo:'' @ sval (get en ''value'')
             @ '' a rdf:Property ;\<newline>    rdfs:label "'' @ sval (get en ''value'') @ ''" ;'')))\<close>
    by blast
qed

theorem transform_pattern_002_statements_witness:
  \<open>find_pattern_type (load borrowers_schema) loan_status_type = Pattern_002 \<and>
   fst (transform_element_new (load borrowers_schema) loan_status_type) =
     [''mismo:LOAN_STATUS_TYPE a rdfs:Datatype ;\<newline>    rdfs:label "LOAN_STATUS_TYPE" ;\<newline>    rdfs:comment "Base datatype for LOAN_STATUS_TYPE enumerations" ;\<newline>    rdfs:subClassOf xsd:string .'',
      ''mismo:Active a rdf:Property ;\<newline>    rdfs:label "Active" ;\<newline>    rdfs:comment "Enumeration value: Active" ;\<newline>    rdfs:subPropertyOf mismo:LOAN_STATUS_TYPE .'',
      ''mismo:Closed a rdf:Property ;\<newline>    rdfs:label "Closed" ;\<newline>    rdfs:comment "Enumeration value: Closed" ;\<newline>    rdfs:subPropertyOf mismo:LOAN_STATUS_TYPE .'']\<close>
  using transform_pattern_002_statements
    [of loan_status_type "xsd_element ''restriction'' [(''base'', ''xsd:string'')]
          [xsd_element ''enumeration'' [(''value'', ''Active'')] [],
           xsd_element ''enumeration'' [(''value'', ''Closed'')] []]"]
  by code_simp

text \<open>
  C6 (as the claim has it) fails where an enumeration has the empty value: the
  Enumeration type \<open>status_type\<close> has two enumeration values and only one property
  beside the base datatype.
\<close>

theorem enumeration_empty_value_counterexample:
  "find_pattern_type (init False) status_type = Pattern_002 \<and>
   length (findall status_type ''enumeration'') = 2 \<and>
   length (fst (transform_element_new (init False) status_type)) = 2"
  by code_simp

section \<open>The collection emitter\<close>

lemma contained_step_eq:
  "contained_step name c (acc, s) =
     (acc @ contained_statements (complex_type_info s) name c,
      if is_class_reference (complex_type_info s) c
      then track_collection_element_relationship name (el_name c) s else s)"
  by (simp add: contained_step_def contained_statements_def is_class_reference_def
        is_extension_reference_def Let_def)

lemma fold_contained_step_statements:
  "fst (fold (contained_step name) cs (acc, s)) =
     acc @ concat (map (contained_statements (complex_type_info s) name) cs)"
proof (induction cs arbitrary: acc s)
  case Nil
  show ?case by simp
next
  case (Cons c cs)
  show ?case
    by (simp add: contained_step_eq Cons.IH)
qed

lemma fold_contained_step_pending:
  "pending_hierarchies (snd (fold (contained_step name) cs (acc, s))) =
     pending_hierarchies s
     @ map (\<lambda>c. (name, el_name c)) (filter (is_class_reference (complex_type_info s)) cs)"
proof (induction cs arbitrary: acc s)
  case Nil
  show ?case by simp
next
  case (Cons c cs)
  show ?case
    by (simp add: contained_step_eq Cons.IH track_collection_element_relationship_def)
qed

lemma transform_pattern_007_new_statements:
  assumes "truthy (get e ''name'')"
    and "map_of (hierarchy_data s) (sval (get e ''name'')) = Some cs"
  shows "fst (transform_pattern_007_new s e) =
           collection_class_statements s (sval (get e ''name''))
             (documentation e (''Collection type: '' @ sval (get e ''name'')))
           @ concat (map (contained_statements (complex_type_info s) (sval (get e ''name''))) cs)"
    and "pending_hierarchies (snd (transform_pattern_007_new s e)) =
           pending_hierarchies s
           @ map (\<lambda>c. (sval (get e ''name''), el_name c))
               (filter (is_class_reference (complex_type_info s)) cs)"
  using assms
  by (simp_all add: transform_pattern_007_new_def Let_def fold_contained_step_statements
        fold_contained_step_pending)





lemma list_all_update:
  "P (k, v) \<Longrightarrow> list_all P al \<Longrightarrow> list_all P (AList.update k v al)"
  by (induction al) auto

lemma contained_types_of_class:
  "list_all (\<lambda>c. el_name c \<noteq> [] \<and> el_type c \<noteq> [] \<and> is_class_type info (el_type c))
     (contained_types_of info t)"
proof (cases "find_xml t ''sequence''")
  case None
  then show ?thesis by (simp add: contained_types_of_def)
next
  case (Some sq)
  have "list_all (\<lambda>c. el_name c \<noteq> [] \<and> el_type c \<noteq> [] \<and> is_class_type info (el_type c))
          (concat (map (\<lambda>elem.
            if truthy (get elem ''name'') \<and> truthy (get elem ''type'')
               \<and> is_class_type info (sval (get elem ''type''))
            then [\<lparr> el_name = sval (get elem ''name''),
                    el_type = sval (get elem ''type''),
                    max_occurs = get_or elem ''maxOccurs'' ''1'' \<rparr>]
            else []) xs))" for xs
    by (induction xs) (auto simp add: truthy_def sval_def split: option.splits)
  with Some show ?thesis by (simp add: contained_types_of_def)
qed

lemma hierarchy_step_class:
  assumes "class_references_only s"
  shows "class_references_only (hierarchy_step p s) \<and>
         complex_type_info (hierarchy_step p s) = complex_type_info s"
proof (cases p)
  case (Pair type_name ti)
  show ?thesis
    using assms contained_types_of_class [of "complex_type_info s" "ti_element ti"]
    by (simp add: Pair hierarchy_step_def Let_def class_references_only_def list_all_update)
qed

lemma fold_hierarchy_step_class:
  "class_references_only s \<Longrightarrow> class_references_only (fold hierarchy_step ps s)"
proof (induction ps arbitrary: s)
  case Nil
  then show ?case by simp
next
  case (Cons p ps)
  from Cons.prems hierarchy_step_class [of s p]
  have "class_references_only (hierarchy_step p s)" by simp
  then show ?case using Cons.IH by simp
qed

lemma build_hierarchy_data_class:
  "class_references_only s \<Longrightarrow> class_references_only (build_hierarchy_data s)"
  using fold_hierarchy_step_class [of s "complex_type_info s"]
  by (simp add: build_hierarchy_data_def)

lemma register_type_hierarchy:
  "hierarchy_data (register_type b l t s) = hierarchy_data s"
  by (simp add: register_type_def Let_def)

lemma fold_register_type_hierarchy:
  "hierarchy_data (fold (register_type b l) ts s) = hierarchy_data s"
  by (induction ts arbitrary: s) (simp_all add: register_type_hierarchy)

lemma analyze_xsd_structure_hierarchy:
  "hierarchy_data (analyze_xsd_structure root s) = hierarchy_data s"
  by (simp add: analyze_xsd_structure_def Let_def fold_register_type_hierarchy)

lemma loaded_class_references_only:
  "class_references_only (build_hierarchy_data (analyze_xsd_structure root (init d)))"
proof (rule build_hierarchy_data_class)
  have "hierarchy_data (analyze_xsd_structure root (init d)) = []"
    by (simp add: analyze_xsd_structure_hierarchy init_def)
  then show "class_references_only (analyze_xsd_structure root (init d))"
    by (simp add: class_references_only_def)
qed

lemma class_references_only_statements:
  assumes "class_references_only s" and "map_of (hierarchy_data s) name = Some cs"
    and "c \<in> set cs"
  shows "contained_statements (complex_type_info s) name' c =
           (if el_name c = ''EXTENSION'' \<and> endswith (el_type c) ''_EXTENSION''
            then [has_extension_ttl ''        '' name' (el_name c) (el_type c)]
            else [contained_class_ttl name' (el_name c), contains_property_ttl name' (el_name c)])"
proof -
  from assms(2) have "(name, cs) \<in> set (hierarchy_data s)"
    by (rule map_of_SomeD)
  with assms(1) assms(3)
  have "el_type c \<noteq> [] \<and> is_class_type (complex_type_info s) (el_type c)"
    by (auto simp add: class_references_only_def list_all_iff)
  then show ?thesis
    by (simp add: contained_statements_def is_class_reference_def is_extension_reference_def)
qed

lemma load_deal_schema:
  "complex_type_info (load deal_schema) =
     [(''DEAL_SETS'', \<lparr> is_owl_class = True, ti_comment = Some ''Complex type: DEAL_SETS'',
                        ti_element = deal_sets \<rparr>),
      (''DEAL_SET'', \<lparr> is_owl_class = True, ti_comment = Some ''Complex type: DEAL_SET'',
                        ti_element = deal_set \<rparr>),
      (''PARTIES'', \<lparr> is_owl_class = True, ti_comment = Some ''Complex type: PARTIES'',
                        ti_element = parties \<rparr>),
      (''PARTY'', \<lparr> is_owl_class = True, ti_comment = Some ''Complex type: PARTY'',
                        ti_element = party \<rparr>),
      (''PARTIES_EXTENSION'', \<lparr> is_owl_class = True,
                        ti_comment = Some ''Complex type: PARTIES_EXTENSION'',
                        ti_element = parties_extension \<rparr>)] \<and>
   hierarchy_data (load deal_schema) =
     [(''DEAL_SETS'', [\<lparr> el_name = ''DEAL_SET'', el_type = ''DEAL_SET'',
                          max_occurs = ''unbounded'' \<rparr>,
                        \<lparr> el_name = ''PARTIES'', el_type = ''PARTIES'', max_occurs = ''1'' \<rparr>]),
      (''PARTIES'', [\<lparr> el_name = ''PARTY'', el_type = ''PARTY'', max_occurs = ''unbounded'' \<rparr>,
                      \<lparr> el_name = ''EXTENSION'', el_type = ''PARTIES_EXTENSION'',
                        max_occurs = ''unbounded'' \<rparr>])]"
  by code_simp


text \<open>
  C4 (as the code has it). The hierarchy data built from a schema holds references to
  class-like types only. So the statements of a Collection type are its class
  statements followed, for each contained reference in order and whatever its
  multiplicity, by the \<open>hasExtension\<close> property (for \<open>EXTENSION\<close> of a type ending in
  \<open>_EXTENSION\<close>) or by the contained class and the contains-property; no reference
  becomes a datatype property.
\<close>

theorem collection_references_statements:
  "class_references_only (build_hierarchy_data (analyze_xsd_structure root (init d))) \<and>
   (class_references_only s \<and> truthy (get e ''name'') \<and>
    map_of (hierarchy_data s) (sval (get e ''name'')) = Some cs \<longrightarrow>
      fst (transform_pattern_007_new s e) =
        collection_class_statements s (sval (get e ''name''))
          (documentation e (''Collection type: '' @ sval (get e ''name'')))
        @ concat (map (\<lambda>c.
            if el_name c = ''EXTENSION'' \<and> endswith (el_type c) ''_EXTENSION''
            then [has_extension_ttl ''        '' (sval (get e ''name'')) (el_name c) (el_type c)]
            else [contained_class_ttl (sval (get e ''name'')) (el_name c),
                  contains_property_ttl (sval (get e ''name'')) (el_name c)]) cs))"
proof (intro conjI impI)
  show "class_references_only (build_hierarchy_data (analyze_xsd_structure root (init d)))"
    by (rule loaded_class_references_only)
next
  assume h: "class_references_only s \<and> truthy (get e ''name'') \<and>
    map_of (hierarchy_data s) (sval (get e ''name'')) = Some cs"
  have m: "map (contained_statements (complex_type_info s) (sval (get e ''name''))) cs =
        map (\<lambda>c.
            if el_name c = ''EXTENSION'' \<and> endswith (el_type c) ''_EXTENSION''
            then [has_extension_ttl ''        '' (sval (get e ''name'')) (el_name c) (el_type c)]
            else [contained_class_ttl (sval (get e ''name'')) (el_name c),
                  contains_property_ttl (sval (get e ''name'')) (el_name c)]) cs"
    using h class_references_only_statements [of s "sval (get e ''name'')" cs]
    by (intro map_cong) (auto simp del: map_of_eq_Some_iff)
  have eq: "fst (transform_pattern_007_new s e) =
        collection_class_statements s (sval (get e ''name''))
          (documentation e (''Collection type: '' @ sval (get e ''name'')))
        @ concat (map (contained_statements (complex_type_info s) (sval (get e ''name''))) cs)"
    using h transform_pattern_007_new_statements(1) [of e s cs] by simp
  show "fst (transform_pattern_007_new s e) =
        collection_class_statements s (sval (get e ''name''))
          (documentation e (''Collection type: '' @ sval (get e ''name'')))
        @ concat (map (\<lambda>c.
            if el_name c = ''EXTENSION'' \<and> endswith (el_type c) ''_EXTENSION''
            then [has_extension_ttl ''        '' (sval (get e ''name'')) (el_name c) (el_type c)]
            else [contained_class_ttl (sval (get e ''name'')) (el_name c),
                  contains_property_ttl (sval (get e ''name'')) (el_name c)]) cs)"
    unfolding eq m by (rule refl)
qed

theorem collection_references_statements_witness:
  \<open>class_references_only (load deal_schema) \<and>
   fst (transform_pattern_007_new (load deal_schema) deal_sets) =
     [''mismo:DEAL_SETS a owl:Class ;\<newline>    rdfs:label "DEAL_SETS" ;\<newline>    rdfs:comment "A collection containing multiple instances. Collection type: DEAL_SETS" ;\<newline>    rdfs:subClassOf owl:Thing .'',
      contained_class_ttl ''DEAL_SETS'' ''DEAL_SET'',
      contains_property_ttl ''DEAL_SETS'' ''DEAL_SET'',
      contained_class_ttl ''DEAL_SETS'' ''PARTIES'',
      contains_property_ttl ''DEAL_SETS'' ''PARTIES'']\<close>
  using collection_references_statements
    [of deal_schema False "load deal_schema" deal_sets
        "[\<lparr> el_name = ''DEAL_SET'', el_type = ''DEAL_SET'', max_occurs = ''unbounded'' \<rparr>,
          \<lparr> el_name = ''PARTIES'', el_type = ''PARTIES'', max_occurs = ''1'' \<rparr>]"]
  by code_simp

text \<open>
  C4 (as the claim has it) fails for the reference \<open>PARTIES\<close> of \<open>DEAL_SETS\<close>, whose
  multiplicity is the default 1: it is emitted as a contained class and a
  contains-property, and no datatype property is emitted.
\<close>

theorem collection_bounded_reference_counterexample:
  \<open>find_pattern_type (load deal_schema) deal_sets = Pattern_007 \<and>
   map_of (hierarchy_data (load deal_schema)) ''DEAL_SETS'' =
     Some [\<lparr> el_name = ''DEAL_SET'', el_type = ''DEAL_SET'', max_occurs = ''unbounded'' \<rparr>,
           \<lparr> el_name = ''PARTIES'', el_type = ''PARTIES'', max_occurs = ''1'' \<rparr>] \<and>
   fst (transform_element_new (load deal_schema) deal_sets) ! 3 =
     ''mismo:PARTIES a owl:Class ;\<newline>        rdfs:label "PARTIES" ;\<newline>        rdfs:comment "Individual PARTIES element contained in DEAL_SETS collection" ;\<newline>        rdfs:subClassOf mismo:DEAL_SETS .'' \<and>
   fst (transform_element_new (load deal_schema) deal_sets) ! 4 =
     ''mismo:containsPARTIES a owl:ObjectProperty ;\<newline>        rdfs:label "contains PARTIES" ;\<newline>        rdfs:comment "Relates DEAL_SETS to individual PARTIES instances" ;\<newline>        owl:domain mismo:DEAL_SETS ;\<newline>        owl:range mismo:PARTIES ;\<newline>        rdfs:subPropertyOf rdf:member .'' \<and>
   length (fst (transform_element_new (load deal_schema) deal_sets)) = 5 \<and>
   list_all (\<lambda>st. \<not> contains st ''owl:DatatypeProperty'')
     (fst (transform_element_new (load deal_schema) deal_sets))\<close>
  by code_simp

section \<open>Superclasses\<close>











lemma class_pattern_prefix:
  assumes "truthy (get e ''name'')"
    and "find_pattern_type s e = Pattern_006 \<or> find_pattern_type s e = Pattern_009"
  shows "prefix (class_statements s (sval (get e ''name''))
                   (documentation e (''Complex type: '' @ sval (get e ''name''))))
           (fst (transform_element_new s e))"
  using assms
  by (auto simp add: transform_element_new_def transform_pattern_006_def
        transform_pattern_009_def Let_def)



lemma find_root_container_None:
  "(find_root_container s = None) =
     list_all (\<lambda>(t, cs). length cs \<le> 5) (hierarchy_data s)"
proof -
  let ?roots = "map (\<lambda>(type_name, contained_types). (type_name, length contained_types))
              (filter (\<lambda>(type_name, contained_types). length contained_types > 5)
                 (hierarchy_data s))"
  have "(find_root_container s = None) = (sort_key (\<lambda>x. - int (snd x)) ?roots = [])"
    by (simp add: find_root_container_def Let_def split: list.splits)
  also have "\<dots> = (?roots = [])"
    by (metis set_empty set_sort)
  also have "\<dots> = list_all (\<lambda>(t, cs). length cs \<le> 5) (hierarchy_data s)"
    by (auto simp add: filter_empty_conv list_all_iff)
  finally show ?thesis .
qed

lemma find_root_container_Some:
  assumes "find_root_container s = Some r"
  shows "\<exists>cs. (r, cs) \<in> set (hierarchy_data s) \<and> 5 < length cs \<and>
           list_all (\<lambda>(t, cs'). length cs' \<le> length cs) (hierarchy_data s)"
proof -
  let ?roots = "map (\<lambda>(type_name, contained_types). (type_name, length contained_types))
              (filter (\<lambda>(type_name, contained_types). length contained_types > 5)
                 (hierarchy_data s))"
  let ?key = "\<lambda>x :: string \<times> nat. - int (snd x)"
  from assms obtain x xs where srt: "sort_key ?key ?roots = x # xs" and r: "r = fst x"
    by (auto simp add: find_root_container_def Let_def split: list.splits)
  have "x \<in> set (sort_key ?key ?roots)" by (simp add: srt)
  then have xin: "x \<in> set ?roots" by simp
  then obtain cs where cs: "(r, cs) \<in> set (hierarchy_data s)" "5 < length cs" "snd x = length cs"
    using r by auto
  have "sorted (map ?key (sort_key ?key ?roots))" by (rule sorted_sort_key)
  then have le: "\<forall>y \<in> set (sort_key ?key ?roots). ?key x \<le> ?key y"
    by (auto simp add: srt)
  have "length cs' \<le> length cs" if "(t, cs') \<in> set (hierarchy_data s)" for t cs'
  proof (cases "5 < length cs'")
    case True
    with that have "(t, length cs') \<in> set ?roots" by force
    then have "(t, length cs') \<in> set (sort_key ?key ?roots)" by simp
    with le have "?key x \<le> ?key (t, length cs')" by blast
    with cs(3) show ?thesis by simp
  next
    case False
    with cs(2) show ?thesis by simp
  qed
  then have "list_all (\<lambda>(t, cs'). length cs' \<le> length cs) (hierarchy_data s)"
    by (auto simp add: list_all_iff)
  with cs show ?thesis by blast
qed




lemma get_parent_types_empty_hierarchy:
  "get_parent_types (s\<lparr>hierarchy_data := []\<rparr>) n = []"
  by (simp add: get_parent_types_def)

lemma find_root_container_empty_hierarchy:
  "find_root_container (s\<lparr>hierarchy_data := []\<rparr>) = None"
  by (simp add: find_root_container_def)

lemma class_statements_without_hierarchy:
  "get_parent_types s n = [] \<Longrightarrow>
   class_statements s n k = class_statements (s\<lparr>hierarchy_data := []\<rparr>) n k"
  by (simp add: class_statements_def get_parent_types_empty_hierarchy)

lemma class_pattern_without_hierarchy:
  assumes "find_pattern_type s e = Pattern_006 \<or> find_pattern_type s e = Pattern_009"
    and "get_parent_types s (sval (get e ''name'')) = []"
  shows "fst (transform_element_new s e) =
           fst (transform_element_new (s\<lparr>hierarchy_data := []\<rparr>) e)"
proof -
  have p: "find_pattern_type (s\<lparr>hierarchy_data := []\<rparr>) e = find_pattern_type s e"
    by (rule find_pattern_type_cong) simp
  have c: "class_statements s (sval (get e ''name'')) k =
           class_statements (s\<lparr>hierarchy_data := []\<rparr>) (sval (get e ''name'')) k" for k
    by (rule class_statements_without_hierarchy [OF assms(2)])
  from assms(1) show ?thesis
  proof
    assume q: "find_pattern_type s e = Pattern_006"
    then show ?thesis
      by (simp add: transform_element_new_def p transform_pattern_006_def c)
  next
    assume q: "find_pattern_type s e = Pattern_009"
    then show ?thesis
      by (simp add: transform_element_new_def p transform_pattern_009_def c)
  qed
qed

lemma template_lines:
  "CHR ''\<newline>'' \<in> set (class_thing_ttl n k)"
  "CHR ''\<newline>'' \<in> set (collection_class_thing_ttl n k)"
  "CHR ''\<newline>'' \<in> set (has_extension_ttl i n x t)"
  "CHR ''\<newline>'' \<in> set (member_ttl n x k t)"
  "CHR ''\<newline>'' \<in> set (attr_ttl n x k t)"
  "CHR ''\<newline>'' \<in> set (contained_class_ttl n x)"
  "CHR ''\<newline>'' \<in> set (contains_property_ttl n x)"
  "CHR ''\<newline>'' \<in> set (datatype_property_ttl n x t)"
  by (simp_all add: class_thing_ttl_def collection_class_thing_ttl_def has_extension_ttl_def
        member_ttl_def attr_ttl_def contained_class_ttl_def contains_property_ttl_def
        datatype_property_ttl_def)

lemma parent_ttl_one_line:
  "CHR ''\<newline>'' \<notin> set n \<Longrightarrow> CHR ''\<newline>'' \<notin> set r \<Longrightarrow>
   CHR ''\<newline>'' \<notin> set (parent_ttl n r)"
  by (simp add: parent_ttl_def)

lemma pattern_006_lines:
  assumes "get_parent_types s (sval (get e ''name'')) = []"
    and "st \<in> set (transform_pattern_006 s e)"
  shows "CHR ''\<newline>'' \<in> set st"
  using assms template_lines
  by (auto simp add: transform_pattern_006_def class_statements_def Let_def
        split: if_splits option.splits)

lemma pattern_009_lines:
  assumes "get_parent_types s (sval (get e ''name'')) = []"
    and "st \<in> set (transform_pattern_009 s e)"
  shows "CHR ''\<newline>'' \<in> set st"
  using assms template_lines
  by (auto simp add: transform_pattern_009_def class_statements_def Let_def
        split: if_splits option.splits)

lemma contained_statements_lines:
  "st \<in> set (contained_statements info n c) \<Longrightarrow> CHR ''\<newline>'' \<in> set st"
  using template_lines
  by (auto simp add: contained_statements_def split: if_splits)

text \<open>
  C3 (as the code has it). A type with no containment parent gets the superclass
  \<open>owl:Thing\<close> in its class statement and no root container is adopted (the
  adoption in \<open>_determine_collection_parents\<close> is commented out). For a type of
  Pattern 006 or 009 the class statement, naming \<open>owl:Thing\<close>, comes first, and the
  whole statement block is the one emitted with no hierarchy data at all, where no
  root container exists. For a Collection the block is exactly the collection class
  statement, naming \<open>owl:Thing\<close>, followed by the statements of its contained
  references. In both cases no statement \<open>mismo:T rdfs:subClassOf mismo:R .\<close> is in
  the block, whatever \<open>R\<close> is. \<open>_find_root_container\<close>, which nothing calls, answers
  \<open>None\<close> exactly when no type has more than five contained references, and
  otherwise a type with more than five and the largest number of them.
\<close>

theorem superclass_without_parents:
  "(truthy (get e ''name'') \<and>
    (find_pattern_type s e = Pattern_006 \<or> find_pattern_type s e = Pattern_009) \<and>
    get_parent_types s (sval (get e ''name'')) = [] \<longrightarrow>
      hd (fst (transform_element_new s e)) =
        class_thing_ttl (sval (get e ''name''))
          (documentation e (''Complex type: '' @ sval (get e ''name''))) \<and>
      fst (transform_element_new s e) =
        fst (transform_element_new (s\<lparr>hierarchy_data := []\<rparr>) e) \<and>
      (CHR ''\<newline>'' \<notin> set (sval (get e ''name'')) \<and> CHR ''\<newline>'' \<notin> set r \<longrightarrow>
         parent_ttl (sval (get e ''name'')) r \<notin> set (fst (transform_element_new s e)))) \<and>
   (truthy (get e ''name'') \<and> find_pattern_type s e = Pattern_007 \<and>
    \<not> disable_pattern_007 s \<and> map_of (hierarchy_data s) (sval (get e ''name'')) = Some cs \<and>
    determine_collection_parents s (sval (get e ''name'')) = [] \<longrightarrow>
      fst (transform_element_new s e) =
        collection_class_thing_ttl (sval (get e ''name''))
          (documentation e (''Collection type: '' @ sval (get e ''name'')))
        # concat (map (contained_statements (complex_type_info s) (sval (get e ''name''))) cs) \<and>
      (CHR ''\<newline>'' \<notin> set (sval (get e ''name'')) \<and> CHR ''\<newline>'' \<notin> set r \<longrightarrow>
         parent_ttl (sval (get e ''name'')) r \<notin> set (fst (transform_element_new s e)))) \<and>
   find_root_container (s\<lparr>hierarchy_data := []\<rparr>) = None \<and>
   (find_root_container s = None) = list_all (\<lambda>(t, cs). length cs \<le> 5) (hierarchy_data s) \<and>
   (find_root_container s = Some root \<longrightarrow>
      (\<exists>cs. (root, cs) \<in> set (hierarchy_data s) \<and> 5 < length cs \<and>
            list_all (\<lambda>(t, cs'). length cs' \<le> length cs) (hierarchy_data s)))"
proof -
  let ?name = "sval (get e ''name'')"
  let ?out = "fst (transform_element_new s e)"
  have a: "hd ?out = class_thing_ttl ?name (documentation e (''Complex type: '' @ ?name)) \<and>
      ?out = fst (transform_element_new (s\<lparr>hierarchy_data := []\<rparr>) e) \<and>
      (CHR ''\<newline>'' \<notin> set ?name \<and> CHR ''\<newline>'' \<notin> set r \<longrightarrow> parent_ttl ?name r \<notin> set ?out)"
    if h: "truthy (get e ''name'') \<and>
        (find_pattern_type s e = Pattern_006 \<or> find_pattern_type s e = Pattern_009) \<and>
        get_parent_types s ?name = []"
  proof -
    from h class_pattern_prefix [of e s]
    obtain rest where
      "?out = class_statements s ?name (documentation e (''Complex type: '' @ ?name)) @ rest"
      by (auto simp add: prefix_def)
    with h have hd: "hd ?out = class_thing_ttl ?name (documentation e (''Complex type: '' @ ?name))"
      by (simp add: class_statements_def)
    from h have ind: "?out = fst (transform_element_new (s\<lparr>hierarchy_data := []\<rparr>) e)"
      using class_pattern_without_hierarchy [of s e] by blast
    have lines: "CHR ''\<newline>'' \<in> set st" if "st \<in> set ?out" for st
    proof -
      from h have "?out = transform_pattern_006 s e \<or> ?out = transform_pattern_009 s e"
        by (auto simp add: transform_element_new_def)
      with that h pattern_006_lines [of s e st] pattern_009_lines [of s e st]
      show ?thesis by auto
    qed
    have "parent_ttl ?name r \<notin> set ?out"
      if "CHR ''\<newline>'' \<notin> set ?name \<and> CHR ''\<newline>'' \<notin> set r"
      using that lines parent_ttl_one_line [of ?name r] by blast
    with hd ind show ?thesis by blast
  qed
  have b: "?out = collection_class_thing_ttl ?name (documentation e (''Collection type: '' @ ?name))
        # concat (map (contained_statements (complex_type_info s) ?name) cs) \<and>
      (CHR ''\<newline>'' \<notin> set ?name \<and> CHR ''\<newline>'' \<notin> set r \<longrightarrow> parent_ttl ?name r \<notin> set ?out)"
    if h: "truthy (get e ''name'') \<and> find_pattern_type s e = Pattern_007 \<and>
        \<not> disable_pattern_007 s \<and> map_of (hierarchy_data s) ?name = Some cs \<and>
        determine_collection_parents s ?name = []"
  proof -
    from h have eq: "?out =
        collection_class_thing_ttl ?name (documentation e (''Collection type: '' @ ?name))
        # concat (map (contained_statements (complex_type_info s) ?name) cs)"
      using transform_pattern_007_new_statements(1) [of e s cs]
      by (simp add: transform_element_new_def collection_class_statements_def)
    have lines: "CHR ''\<newline>'' \<in> set st" if "st \<in> set ?out" for st
      using that template_lines(2) contained_statements_lines
      by (auto simp add: eq)
    have "parent_ttl ?name r \<notin> set ?out"
      if "CHR ''\<newline>'' \<notin> set ?name \<and> CHR ''\<newline>'' \<notin> set r"
      using that lines parent_ttl_one_line [of ?name r] by blast
    with eq show ?thesis by blast
  qed
  from a b find_root_container_empty_hierarchy [of s]
    find_root_container_None [of s] find_root_container_Some [of s root]
  show ?thesis by blast
qed

theorem superclass_without_parents_witness:
  \<open>find_pattern_type (load root_schema) gadget = Pattern_009 \<and>
   get_parent_types (load root_schema) ''GADGET'' = [] \<and>
   parent_ttl ''GADGET'' ''ROOT'' \<notin> set (fst (transform_element_new (load root_schema) gadget)) \<and>
   fst (transform_element_new (load root_schema) gadget) =
     fst (transform_element_new (load root_schema\<lparr>hierarchy_data := []\<rparr>) gadget) \<and>
   find_pattern_type (load root_schema) widgets = Pattern_007 \<and>
   determine_collection_parents (load root_schema) ''WIDGETS'' = [] \<and>
   parent_ttl ''WIDGETS'' ''ROOT'' \<notin> set (fst (transform_element_new (load root_schema) widgets)) \<and>
   find_root_container (load root_schema) = Some ''ROOT'' \<and>
   find_root_container (load borrowers_schema) = None\<close>
proof -
  have n: "sval (get gadget ''name'') = ''GADGET''" "sval (get widgets ''name'') = ''WIDGETS''"
    by code_simp+
  have h: "truthy (get gadget ''name'') \<and>
    (find_pattern_type (load root_schema) gadget = Pattern_006
     \<or> find_pattern_type (load root_schema) gadget = Pattern_009) \<and>
    get_parent_types (load root_schema) (sval (get gadget ''name'')) = []"
    by code_simp
  have p: "find_pattern_type (load root_schema) gadget = Pattern_009"
    by code_simp
  have g: "get_parent_types (load root_schema) ''GADGET'' = []"
    by code_simp
  have l: "CHR ''\<newline>'' \<notin> set (sval (get gadget ''name'')) \<and> CHR ''\<newline>'' \<notin> set ''ROOT''"
    "CHR ''\<newline>'' \<notin> set (sval (get widgets ''name'')) \<and> CHR ''\<newline>'' \<notin> set ''ROOT''"
    by code_simp+
  note t = superclass_without_parents
    [of gadget "load root_schema" "''ROOT''"
        "[\<lparr> el_name = ''WIDGET'', el_type = ''WIDGET'', max_occurs = ''unbounded'' \<rparr>]"
        "''ROOT''"]
  from t h l(1)
  have g1: "parent_ttl ''GADGET'' ''ROOT''
              \<notin> set (fst (transform_element_new (load root_schema) gadget))"
    unfolding n by blast
  from t h
  have g2: "fst (transform_element_new (load root_schema) gadget) =
     fst (transform_element_new (load root_schema\<lparr>hierarchy_data := []\<rparr>) gadget)"
    by blast
  have k: "truthy (get widgets ''name'') \<and> find_pattern_type (load root_schema) widgets = Pattern_007 \<and>
    \<not> disable_pattern_007 (load root_schema) \<and>
    map_of (hierarchy_data (load root_schema)) (sval (get widgets ''name'')) =
      Some [\<lparr> el_name = ''WIDGET'', el_type = ''WIDGET'', max_occurs = ''unbounded'' \<rparr>] \<and>
    determine_collection_parents (load root_schema) (sval (get widgets ''name'')) = []"
    by code_simp
  have q: "find_pattern_type (load root_schema) widgets = Pattern_007"
    by code_simp
  have d: "determine_collection_parents (load root_schema) ''WIDGETS'' = []"
    by code_simp
  note u = superclass_without_parents
    [of widgets "load root_schema" "''ROOT''"
        "[\<lparr> el_name = ''WIDGET'', el_type = ''WIDGET'', max_occurs = ''unbounded'' \<rparr>]"
        "''ROOT''"]
  from u k l(2)
  have w1: "parent_ttl ''WIDGETS'' ''ROOT''
              \<notin> set (fst (transform_element_new (load root_schema) widgets))"
    unfolding n by blast
  have r1: "find_root_container (load root_schema) = Some ''ROOT''"
    by code_simp
  have r2: "find_root_container (load borrowers_schema) = None"
    by code_simp
  show ?thesis
    by (intro conjI) (rule p g g1 g2 q d w1 r1 r2)+
qed

text \<open>
  C3 (as the claim has it) fails in \<open>root_schema\<close>, where the root container \<open>ROOT\<close>
  can be identified: \<open>GADGET\<close> (Pattern 009) and the Collection \<open>WIDGETS\<close> have no
  parent and are contained nowhere, and the class of each is a subclass of
  \<open>owl:Thing\<close>; the statement blocks, given in full, and the consistency pass name
  \<open>ROOT\<close> nowhere.
\<close>

theorem root_container_not_adopted_counterexample:
  \<open>find_root_container (load root_schema) = Some ''ROOT'' \<and>
   find_pattern_type (load root_schema) gadget = Pattern_009 \<and>
   get_parent_types (load root_schema) ''GADGET'' = [] \<and>
   is_top_level_collection (load root_schema) ''GADGET'' \<and>
   fst (transform_element_new (load root_schema) gadget) =
     [''mismo:GADGET a owl:Class ;\<newline>            rdfs:label "GADGET" ;\<newline>            rdfs:comment "Complex type: GADGET" ;\<newline>            rdfs:subClassOf owl:Thing .'',
      ''mismo:Label a owl:DatatypeProperty ;\<newline>    rdfs:label "Label" ;\<newline>    rdfs:comment "Attribute: Label" ;\<newline>    rdfs:domain mismo:GADGET ;\<newline>    rdfs:range xsd:string .''] \<and>
   find_pattern_type (load root_schema) widgets = Pattern_007 \<and>
   determine_collection_parents (load root_schema) ''WIDGETS'' = [] \<and>
   is_top_level_collection (load root_schema) ''WIDGETS'' \<and>
   fst (transform_element_new (load root_schema) widgets) =
     [''mismo:WIDGETS a owl:Class ;\<newline>    rdfs:label "WIDGETS" ;\<newline>    rdfs:comment "A collection containing multiple instances. Collection type: WIDGETS" ;\<newline>    rdfs:subClassOf owl:Thing .'',
      ''mismo:WIDGET a owl:Class ;\<newline>        rdfs:label "WIDGET" ;\<newline>        rdfs:comment "Individual WIDGET element contained in WIDGETS collection" ;\<newline>        rdfs:subClassOf mismo:WIDGETS .'',
      ''mismo:containsWIDGET a owl:ObjectProperty ;\<newline>        rdfs:label "contains WIDGET" ;\<newline>        rdfs:comment "Relates WIDGETS to individual WIDGET instances" ;\<newline>        owl:domain mismo:WIDGETS ;\<newline>        owl:range mismo:WIDGET ;\<newline>        rdfs:subPropertyOf rdf:member .''] \<and>
   ensure_hierarchy_consistency (snd (transform_element_new (load root_schema) widgets)) =
     [''# Ensure hierarchy consistency: WIDGET is subclass of WIDGETS\<newline>mismo:WIDGET rdfs:subClassOf mismo:WIDGETS .'',
      ''# Ensure collection hierarchy: WIDGETS is subclass of owl:Thing\<newline>mismo:WIDGETS rdfs:subClassOf owl:Thing .'']\<close>
  by code_simp

section \<open>One statement block for each name\<close>

lemma get_parent_types_cong:
  "hierarchy_data s' = hierarchy_data s \<Longrightarrow> get_parent_types s' n = get_parent_types s n"
  by (simp add: get_parent_types_def)

lemma determine_collection_parents_cong:
  "hierarchy_data s' = hierarchy_data s \<Longrightarrow>
   determine_collection_parents s' n = determine_collection_parents s n"
  by (simp add: determine_collection_parents_def)

lemma transform_pattern_007_new_cong:
  assumes "same_schema s s'"
  shows "fst (transform_pattern_007_new s' e) = fst (transform_pattern_007_new s e)"
proof (cases "truthy (get e ''name'')")
  case False
  then show ?thesis by (simp add: transform_pattern_007_new_def)
next
  case True
  from assms have h: "hierarchy_data s' = hierarchy_data s"
    and i: "complex_type_info s' = complex_type_info s"
    by (simp_all add: same_schema_def)
  show ?thesis
  proof (cases "map_of (hierarchy_data s) (sval (get e ''name''))")
    case None
    with True h show ?thesis by (simp add: transform_pattern_007_new_def)
  next
    case (Some cs)
    from True Some h
    have "fst (transform_pattern_007_new s' e) =
           collection_class_statements s' (sval (get e ''name''))
             (documentation e (''Collection type: '' @ sval (get e ''name'')))
           @ concat (map (contained_statements (complex_type_info s') (sval (get e ''name''))) cs)"
      using transform_pattern_007_new_statements(1) [of e s' cs] by simp
    moreover from True Some
    have "fst (transform_pattern_007_new s e) =
           collection_class_statements s (sval (get e ''name''))
             (documentation e (''Collection type: '' @ sval (get e ''name'')))
           @ concat (map (contained_statements (complex_type_info s) (sval (get e ''name''))) cs)"
      using transform_pattern_007_new_statements(1) [of e s cs] by simp
    moreover have "collection_class_statements s' n k = collection_class_statements s n k" for n k
      using determine_collection_parents_cong [OF h, of n]
      by (simp add: collection_class_statements_def)
    ultimately show ?thesis by (simp add: i)
  qed
qed

lemma transform_element_new_cong:
  assumes "same_schema s s'"
  shows "fst (transform_element_new s' e) = fst (transform_element_new s e)"
proof -
  from assms have h: "hierarchy_data s' = hierarchy_data s"
    and i: "complex_type_info s' = complex_type_info s"
    and d: "disable_pattern_007 s' = disable_pattern_007 s"
    by (simp_all add: same_schema_def)
  have p: "find_pattern_type s' e = find_pattern_type s e"
    by (rule find_pattern_type_cong [OF i])
  have c: "class_statements s' n k = class_statements s n k" for n k
    using get_parent_types_cong [OF h, of n] by (simp add: class_statements_def)
  have "transform_pattern_006 s' e = transform_pattern_006 s e"
    by (simp add: transform_pattern_006_def c)
  moreover have "transform_pattern_009 s' e = transform_pattern_009 s e"
    by (simp add: transform_pattern_009_def c)
  ultimately show ?thesis
    using transform_pattern_007_new_cong [OF assms, of e]
    by (cases "find_pattern_type s e") (simp_all add: transform_element_new_def p d)
qed

lemma transform_one_effect:
  assumes "same_schema s0 s"
  shows "same_schema s0 (transform_one name e s)"
    and "fst (transform_element_new s0 e) = [] \<Longrightarrow> same_output s (transform_one name e s)"
    and "fst (transform_element_new s0 e) \<noteq> [] \<Longrightarrow>
           ttl_statements (transform_one name e s) =
             ttl_statements s @ fst (transform_element_new s0 e) @ [''''] \<and>
           transformed_types (transform_one name e s) = insert name (transformed_types s)"
proof -
  have out: "fst (transform_element_new s e) = fst (transform_element_new s0 e)"
    by (rule transform_element_new_cong [OF assms])
  from transform_element_new_fields [of s e]
  have f: "same_schema s (snd (transform_element_new s e))"
    and g: "same_output s (snd (transform_element_new s e))"
    by simp_all
  from assms f show "same_schema s0 (transform_one name e s)"
    by (simp add: transform_one_def Let_def same_schema_def)
  from g out show "fst (transform_element_new s0 e) = [] \<Longrightarrow> same_output s (transform_one name e s)"
    by (simp add: transform_one_def Let_def same_output_def)
  from g out show "fst (transform_element_new s0 e) \<noteq> [] \<Longrightarrow>
           ttl_statements (transform_one name e s) =
             ttl_statements s @ fst (transform_element_new s0 e) @ [''''] \<and>
           transformed_types (transform_one name e s) = insert name (transformed_types s)"
    by (simp add: transform_one_def Let_def same_output_def)
qed

lemma emitted_names:
  "sval (get x ''name'') \<notin> T" if "x \<in> set (emitted s es T)"
  using that
proof (induction es arbitrary: T)
  case Nil
  then show ?case by simp
next
  case (Cons e es)
  then show ?case by (auto split: if_splits)
qed

lemma emitted_distinct:
  "distinct (map (\<lambda>e. sval (get e ''name'')) (emitted s es T))"
proof (induction es arbitrary: T)
  case Nil
  show ?case by simp
next
  case (Cons e es)
  have "\<forall>x \<in> set (emitted s es (insert (sval (get e ''name'')) T)).
          sval (get x ''name'') \<noteq> sval (get e ''name'')"
    using emitted_names [where s = s and es = es and T = "insert (sval (get e ''name'')) T"]
    by blast
  then have "sval (get e ''name'')
               \<notin> (\<lambda>e. sval (get e ''name'')) ` set (emitted s es (insert (sval (get e ''name'')) T))"
    by (metis (no_types, lifting) imageE)
  with Cons.IH show ?case by simp
qed

lemma fold_transform_step:
  assumes "same_schema s0 s"
  shows "ttl_statements (fold transform_step es s) =
           ttl_statements s
           @ concat (map (\<lambda>e. fst (transform_element_new s0 e) @ [''''])
                       (emitted s0 es (transformed_types s))) \<and>
         transformed_types (fold transform_step es s) =
           transformed_types s
           \<union> (\<lambda>e. sval (get e ''name'')) ` set (emitted s0 es (transformed_types s))"
  using assms
proof (induction es arbitrary: s)
  case Nil
  show ?case by simp
next
  case (Cons e es)
  let ?n = "sval (get e ''name'')"
  show ?case
  proof (cases "truthy (get e ''name'') \<and> ?n \<notin> transformed_types s")
    case False
    then have "transform_step e s = s" by (auto simp add: transform_step_def)
    with False Cons.IH [OF Cons.prems] show ?thesis by auto
  next
    case True
    then have step: "transform_step e s = transform_one ?n e s"
      by (simp add: transform_step_def)
    note eff = transform_one_effect [OF Cons.prems, where name = ?n and e = e]
    show ?thesis
    proof (cases "fst (transform_element_new s0 e) = []")
      case True
      with eff(2) have "same_output s (transform_one ?n e s)" by simp
      with Cons.IH [OF eff(1)] True show ?thesis
        by (simp add: step same_output_def)
    next
      case False
      with eff(3) have t: "ttl_statements (transform_one ?n e s) =
             ttl_statements s @ fst (transform_element_new s0 e) @ ['''']"
        and u: "transformed_types (transform_one ?n e s) = insert ?n (transformed_types s)"
        by simp_all
      from Cons.IH [OF eff(1)] True False show ?thesis
        by (simp add: step t u)
    qed
  qed
qed

lemma message_element_name:
  assumes "message_element root = Some m"
  shows "get m ''name'' = Some ''MESSAGE''"
proof -
  let ?ms = "filter (\<lambda>t. get t ''name'' = Some ''MESSAGE'') (findall root ''complexType'')"
  from assms have ne: "?ms \<noteq> []" and m: "m = last ?ms"
    by (auto simp add: message_element_def split: list.splits)
  from ne have "last ?ms \<in> set ?ms" by (rule last_in_set)
  with m show ?thesis by simp
qed

lemma transform_types_visit_order:
  assumes "''MESSAGE'' \<notin> transformed_types s"
  shows "transform_types root s = fold transform_step (visit_order root) s"
proof (cases "message_element root")
  case None
  then show ?thesis
    by (simp add: transform_types_def transform_message_def visit_order_def)
next
  case (Some m)
  from message_element_name [OF Some] assms
  have "transform_step m s = transform_one ''MESSAGE'' m s"
    by (simp add: transform_step_def truthy_def sval_def)
  with Some show ?thesis
    by (simp add: transform_types_def transform_message_def visit_order_def)
qed

text \<open>
  C10 (as the code has it). An element whose name is already in \<open>transformed_types\<close>
  changes nothing. The statements written by the visit are the blocks, each closed by
  an empty line, of the elements \<open>emitted\<close> selects: in visit order, an element is
  taken when it has a name that is not yet recorded and its statements are not empty;
  its name is recorded then. The names of the selected elements are distinct, so
  every name has at most one block: that of its first occurrence in visit order whose
  statements are not empty. The visit starts with the complex type \<open>MESSAGE\<close>
  (the last of that name, when it has a child), then the simple types and the other
  complex types follow.
\<close>

theorem type_names_transformed_once:
  "(truthy (get e ''name'') \<and> sval (get e ''name'') \<in> transformed_types s \<longrightarrow>
      transform_step e s = s) \<and>
   ttl_statements (fold transform_step es s) =
     ttl_statements s
     @ concat (map (\<lambda>e. fst (transform_element_new s e) @ [''''])
                 (emitted s es (transformed_types s))) \<and>
   transformed_types (fold transform_step es s) =
     transformed_types s \<union> (\<lambda>e. sval (get e ''name'')) ` set (emitted s es (transformed_types s)) \<and>
   distinct (map (\<lambda>e. sval (get e ''name'')) (emitted s es (transformed_types s))) \<and>
   (''MESSAGE'' \<notin> transformed_types s \<longrightarrow>
      transform_types root s = fold transform_step (visit_order root) s)"
proof -
  have a: "truthy (get e ''name'') \<and> sval (get e ''name'') \<in> transformed_types s \<longrightarrow>
      transform_step e s = s"
    by (simp add: transform_step_def)
  have "same_schema s s" by (simp add: same_schema_def)
  from fold_transform_step [OF this, of es] a
    emitted_distinct [of s es "transformed_types s"]
    transform_types_visit_order [of s root]
  show ?thesis by blast
qed

theorem type_names_transformed_once_witness:
  \<open>visit_order amounts_schema = [amount_decimal, amount_integer] \<and>
   emitted (load amounts_schema) (visit_order amounts_schema) {} = [amount_decimal] \<and>
   ttl_statements (transform_types amounts_schema (load amounts_schema)) =
     [''mismo:AMOUNT a rdfs:Datatype ;\<newline>    rdfs:label "AMOUNT" ;\<newline>    rdfs:subClassOf xsd:decimal .'',
      ''''] \<and>
   transformed_types (transform_types amounts_schema (load amounts_schema)) = {''AMOUNT''} \<and>
   transform_step amount_integer (transform_types amounts_schema (load amounts_schema))
     = transform_types amounts_schema (load amounts_schema)\<close>
  using type_names_transformed_once
    [of amount_integer "transform_types amounts_schema (load amounts_schema)"
        "visit_order amounts_schema" amounts_schema]
    type_names_transformed_once
    [of amount_integer "load amounts_schema" "visit_order amounts_schema" amounts_schema]
  by code_simp

text \<open>
  C10 (as the claim has it) fails in \<open>codes_schema\<close>, where the name \<open>CODE\<close> occurs
  twice: the first occurrence in visit order, a restriction without a base, gives no
  statements and is not recorded, and the block that is emitted is that of the second
  occurrence.
\<close>

theorem first_occurrence_counterexample:
  \<open>transformable_elements codes_schema = [code_without_base, code_string] \<and>
   message_element codes_schema = None \<and>
   get code_without_base ''name'' = Some ''CODE'' \<and> get code_string ''name'' = Some ''CODE'' \<and>
   fst (transform_element_new (load codes_schema) code_without_base) = [] \<and>
   ttl_statements (transform_types codes_schema (load codes_schema)) =
     fst (transform_element_new (load codes_schema) code_string) @ [''''] \<and>
   ttl_statements (transform_types codes_schema (load codes_schema)) =
     [''mismo:CODE a rdfs:Datatype ;\<newline>    rdfs:label "CODE" ;\<newline>    rdfs:subClassOf xsd:string .'',
      '''']\<close>
  by code_simp

end
